theory Spec2Isabelle
  imports Complex_Main "HOL-Library.Char_ord" "HOL-Library.List_Lexorder"
begin

section \<open>Python values, shapes and exceptions\<close>

text \<open>
  The values that flow through \<^verbatim>\<open>geometry.py\<close>: raw (JSON-like) Python values, with a
  dictionary as an association list in insertion order (\<open>map_of\<close> is \<^verbatim>\<open>dict.get\<close>).
  Lists and tuples are both \<open>PList\<close>; numbers are real numbers, so IEEE rounding, NaN and
  infinities are outside the model.
\<close>

datatype pyval =
    PNone
  | PBool bool
  | PNum real
  | PStr string
  | PList "pyval list"
  | PDict "(string \<times> pyval) list"

text \<open>
  Modelled from the spec: \<^verbatim>\<open>shapely.geometry.base.BaseGeometry\<close> is imported by
  \<^verbatim>\<open>geometry.py\<close> and is not part of the source tree. Following section 3 of the
  specification, a shape is one of the seven GeoJSON geometry kinds with its coordinate or
  child data.
\<close>

datatype BaseGeometry =
    Point "real list"
  | LineString "real list list"
  | Polygon "real list list list"
  | MultiPoint "real list list"
  | MultiLineString "real list list list"
  | MultiPolygon "real list list list list"
  | GeometryCollection "BaseGeometry list"

text \<open>\<^verbatim>\<open>class Geometry\<close>: the wrapper with its single attribute \<^verbatim>\<open>geom\<close>.\<close>

datatype Geometry = Geometry (geom: BaseGeometry)

text \<open>
  The text of an exception is an f-string in the source. It is kept as its sequence of
  segments: literal text, \<^verbatim>\<open>repr(x)\<close> of a value, and \<^verbatim>\<open>type(x).__name__\<close>.
\<close>

datatype segment = Text string | Repr pyval | TypeName pyval

type_synonym message = "segment list"

datatype loc_item = LocStr string | LocInt int

text \<open>The \<^verbatim>\<open>input\<close> of an error detail is the raw value or an already decoded Geometry.\<close>

datatype any = Raw pyval | Obj Geometry

text \<open>\<^verbatim>\<open>pydantic_core.InitErrorDetails\<close>: the keys the source fills in.\<close>

record InitErrorDetails =
  err_type :: string
  err_loc :: "loc_item list"
  err_input :: any
  ctx_error :: message

text \<open>
  The exceptions the code raises or lets through. \<open>ValidationError\<close> carries the title and
  the line errors given to \<^verbatim>\<open>ValidationError.from_exception_data\<close>.
\<close>

datatype exn =
    TypeError message
  | ValueError message
  | KeyError string
  | AttributeError string
  | ValidationError string "InitErrorDetails list"

text \<open>
  \<^verbatim>\<open>str(e)\<close>, the text of an exception: its message, and for a KeyError the
  \<^verbatim>\<open>repr\<close> of the key. Decoding never raises a ValidationError, whose long report is
  cut down to its title.
\<close>

fun exn_str :: "exn \<Rightarrow> message" where
  "exn_str (TypeError m) = m"
| "exn_str (ValueError m) = m"
| "exn_str (KeyError k) = [Repr (PStr k)]"
| "exn_str (AttributeError a) = [Text ''object has no attribute '', Repr (PStr a)]"
| "exn_str (ValidationError t es) = [Text t]"

text \<open>
  The validation context is whatever object the caller passes to the validation: the
  Python objects that the source can tell apart when it reads the context. Lists and
  tuples are distinct here, because \<^verbatim>\<open>+ ("value",)\<close> accepts only a tuple.
\<close>

datatype pyobj =
    ONone
  | OBool bool
  | OInt int
  | OFloat real
  | OStr string
  | OList "pyobj list"
  | OTuple "pyobj list"
  | ODict "(string \<times> pyobj) list"

text \<open>
  \<^verbatim>\<open>pydantic.ValidationInfo\<close>: only \<^verbatim>\<open>info.context\<close> is read. \<open>None\<close> is Python's \<^verbatim>\<open>None\<close>
  (no context was given), \<open>Some c\<close> is the object that was given.
\<close>

record ValidationInfo =
  info_context :: "pyobj option"

section \<open>The geometry type names\<close>

definition GEOMETRY_TYPES :: "string list" where
  "GEOMETRY_TYPES =
     [''GeometryCollection'', ''LineString'', ''Point'', ''Polygon'',
      ''MultiLineString'', ''MultiPoint'', ''MultiPolygon'']"

section \<open>GeometryTypeConstraint\<close>

record GeometryTypeConstraint =
  allowed_types :: "string list"

text \<open>
  \<^verbatim>\<open>GeometryTypeConstraint._validate_geometry_types\<close>. \<^verbatim>\<open>sorted\<close> on strings is
  \<open>sort\<close> in the lexicographic order of the character codes.
\<close>

definition validate_geometry_types :: "string list \<Rightarrow> exn + string list" where
  "validate_geometry_types a =
     (if a = [] then
        Inl (ValueError
          [Text ''allowed_types is empty (it must contain at least one of: '',
           Repr (PList (map PStr GEOMETRY_TYPES)), Text '')''])
      else if \<not> list_all (\<lambda>item. item \<in> set GEOMETRY_TYPES) a then
        Inl (ValueError
          [Text ''allowed_types contains invalid values: '',
           Repr (PList (map PStr (filter (\<lambda>item. item \<notin> set GEOMETRY_TYPES) a))),
           Text '' (allowed: '', Repr (PList (map PStr GEOMETRY_TYPES)), Text '')''])
      else if card (set a) \<noteq> length a then
        Inl (ValueError [Text ''allowed_types contains duplicate(s)''])
      else Inr (sort a))"

text \<open>\<^verbatim>\<open>GeometryTypeConstraint.__init__\<close>.\<close>

definition GeometryTypeConstraint_init :: "string list \<Rightarrow> exn + GeometryTypeConstraint" where
  "GeometryTypeConstraint_init a =
     (case validate_geometry_types a of
        Inl e \<Rightarrow> Inl e
      | Inr ts \<Rightarrow> Inr \<lparr>allowed_types = ts\<rparr>)"

text \<open>
  \<^verbatim>\<open>GeometryTypeConstraint(*a)\<close> as an expression: every call that succeeds makes a new
  object. The state is the number of objects made so far, and an object is the pair of its
  identity and its attributes.
\<close>

definition new_GeometryTypeConstraint ::
  "string list \<Rightarrow> nat \<Rightarrow> exn + ((nat \<times> GeometryTypeConstraint) \<times> nat)" where
  "new_GeometryTypeConstraint a made =
     (case GeometryTypeConstraint_init a of
        Inl e \<Rightarrow> Inl e
      | Inr c \<Rightarrow> Inr ((made, c), Suc made))"

text \<open>
  \<^verbatim>\<open>x == y\<close> on two constraints: the class defines no \<^verbatim>\<open>__eq__\<close>, so the comparison is
  the one of \<^verbatim>\<open>object\<close>, which is identity.
\<close>

definition GeometryTypeConstraint_eq ::
  "nat \<times> GeometryTypeConstraint \<Rightarrow> nat \<times> GeometryTypeConstraint \<Rightarrow> bool" where
  "GeometryTypeConstraint_eq x y = (fst x = fst y)"

section \<open>The shape library\<close>

text \<open>
  Modelled from the spec: \<^verbatim>\<open>shapely.geometry.shape\<close>, \<^verbatim>\<open>shapely.geometry.mapping\<close> and the
  attribute \<^verbatim>\<open>geom_type\<close> are imported by \<^verbatim>\<open>geometry.py\<close> and are not part of the
  source tree. Following section 4.1 of the specification, \<open>shape\<close> parses the
  kind-specific fields (\<^verbatim>\<open>coordinates\<close> for the simple and the multi kinds,
  \<^verbatim>\<open>geometries\<close> for a collection) into the concrete shape, and any structural defect of
  the nesting fails the whole parse; \<open>mapping\<close> produces the GeoJSON object, a \<^verbatim>\<open>type\<close>
  string plus \<^verbatim>\<open>coordinates\<close> or \<^verbatim>\<open>geometries\<close>.
\<close>

fun geom_type :: "BaseGeometry \<Rightarrow> string" where
  "geom_type (Point c) = ''Point''"
| "geom_type (LineString c) = ''LineString''"
| "geom_type (Polygon c) = ''Polygon''"
| "geom_type (MultiPoint c) = ''MultiPoint''"
| "geom_type (MultiLineString c) = ''MultiLineString''"
| "geom_type (MultiPolygon c) = ''MultiPolygon''"
| "geom_type (GeometryCollection gs) = ''GeometryCollection''"

text \<open>The first failure of a sequence of results wins, as the first raise does.\<close>

fun sequence :: "(exn + 'a) list \<Rightarrow> exn + 'a list" where
  "sequence [] = Inr []"
| "sequence (r # rs) =
     (case r of
        Inl e \<Rightarrow> Inl e
      | Inr x \<Rightarrow> (case sequence rs of Inl e \<Rightarrow> Inl e | Inr xs \<Rightarrow> Inr (x # xs)))"

fun number :: "pyval \<Rightarrow> exn + real" where
  "number (PNum x) = Inr x"
| "number v = Inl (TypeError [Text ''coordinate is not a number: '', Repr v])"

definition nested :: "(pyval \<Rightarrow> exn + 'a) \<Rightarrow> pyval \<Rightarrow> exn + 'a list" where
  "nested item v =
     (case v of
        PList xs \<Rightarrow> sequence (map item xs)
      | _ \<Rightarrow> Inl (TypeError [Text ''coordinates are not a sequence: '', Repr v]))"

definition position :: "pyval \<Rightarrow> exn + real list" where
  "position = nested number"

definition positions :: "pyval \<Rightarrow> exn + real list list" where
  "positions = nested position"

definition rings :: "pyval \<Rightarrow> exn + real list list list" where
  "rings = nested positions"

definition polygons :: "pyval \<Rightarrow> exn + real list list list list" where
  "polygons = nested rings"

text \<open>\<^verbatim>\<open>ob["coordinates"]\<close> parsed by \<open>parse\<close> and wrapped by \<open>wrap\<close>.\<close>

definition coordinates_of ::
  "(string \<times> pyval) list \<Rightarrow> (pyval \<Rightarrow> exn + 'a) \<Rightarrow> ('a \<Rightarrow> BaseGeometry) \<Rightarrow> exn + BaseGeometry" where
  "coordinates_of ob parse wrap =
     (case map_of ob ''coordinates'' of
        None \<Rightarrow> Inl (KeyError ''coordinates'')
      | Some c \<Rightarrow> (case parse c of Inl e \<Rightarrow> Inl e | Inr x \<Rightarrow> Inr (wrap x)))"

lemma size_map_of_PDict: "map_of ob k = Some v \<Longrightarrow> size v < size (PDict ob)"
  by (induction ob) (auto split: if_splits)

lemma size_member_PList: "g \<in> set gs \<Longrightarrow> size g < size (PList gs)"
  by (induction gs) auto

function (sequential) shape :: "pyval \<Rightarrow> exn + BaseGeometry" where
  "shape (PDict ob) =
     (case map_of ob ''type'' of
        Some (PStr t) \<Rightarrow>
          if t = ''Point'' then coordinates_of ob position Point
          else if t = ''LineString'' then coordinates_of ob positions LineString
          else if t = ''Polygon'' then coordinates_of ob rings Polygon
          else if t = ''MultiPoint'' then coordinates_of ob positions MultiPoint
          else if t = ''MultiLineString'' then coordinates_of ob rings MultiLineString
          else if t = ''MultiPolygon'' then coordinates_of ob polygons MultiPolygon
          else if t = ''GeometryCollection'' then
            (case map_of ob ''geometries'' of
               None \<Rightarrow> Inl (KeyError ''geometries'')
             | Some (PList gs) \<Rightarrow>
                 (case sequence (map shape gs) of
                    Inl e \<Rightarrow> Inl e
                  | Inr ss \<Rightarrow> Inr (GeometryCollection ss))
             | Some v \<Rightarrow> Inl (TypeError [Text ''geometries are not a sequence: '', Repr v]))
          else Inl (ValueError [Text ''Unknown geometry type: '', Repr (PStr t)])
      | Some v \<Rightarrow> Inl (ValueError [Text ''Unknown geometry type: '', Repr v])
      | None \<Rightarrow> Inl (ValueError [Text ''Unknown geometry type: '', Repr PNone]))"
| "shape v = Inl (TypeError [Text ''not a geometry object: '', Repr v])"
  by pat_completeness auto
termination
proof (relation "measure size")
  show "wf (measure size)" by simp
next
  fix ob x2 x4 x5 x
  assume "map_of ob ''geometries'' = Some x2" and "x2 = PList x5" and "x \<in> set x5"
  then have "size x < size (PList x5)" and "size (PList x5) < size (PDict ob)"
    using size_member_PList size_map_of_PDict by blast+
  then show "(x, PDict ob) \<in> measure size" by simp
qed

text \<open>
  Modelled from the spec: what section 3 says of the \<^verbatim>\<open>coordinates\<close> of a kind, nested
  arrays of numbers whose nesting depth the kind determines (section 4.3: a point is a flat
  array of numbers, a line string an array of points, a polygon an array of rings, the
  multi kinds arrays of the singular form).
\<close>

primrec arrays_of_numbers :: "nat \<Rightarrow> pyval \<Rightarrow> bool" where
  "arrays_of_numbers 0 v = (case v of PNum x \<Rightarrow> True | _ \<Rightarrow> False)"
| "arrays_of_numbers (Suc n) v =
     (case v of PList xs \<Rightarrow> list_all (arrays_of_numbers n) xs | _ \<Rightarrow> False)"

definition nesting_depth :: "string \<Rightarrow> nat" where
  "nesting_depth t =
     (if t = ''Point'' then 1
      else if t = ''LineString'' \<or> t = ''MultiPoint'' then 2
      else if t = ''Polygon'' \<or> t = ''MultiLineString'' then 3
      else 4)"

fun mapping :: "BaseGeometry \<Rightarrow> pyval" where
  "mapping (Point c) =
     PDict [(''type'', PStr ''Point''), (''coordinates'', PList (map PNum c))]"
| "mapping (LineString c) =
     PDict [(''type'', PStr ''LineString''),
            (''coordinates'', PList (map (\<lambda>p. PList (map PNum p)) c))]"
| "mapping (Polygon c) =
     PDict [(''type'', PStr ''Polygon''),
            (''coordinates'', PList (map (\<lambda>r. PList (map (\<lambda>p. PList (map PNum p)) r)) c))]"
| "mapping (MultiPoint c) =
     PDict [(''type'', PStr ''MultiPoint''),
            (''coordinates'', PList (map (\<lambda>p. PList (map PNum p)) c))]"
| "mapping (MultiLineString c) =
     PDict [(''type'', PStr ''MultiLineString''),
            (''coordinates'', PList (map (\<lambda>l. PList (map (\<lambda>p. PList (map PNum p)) l)) c))]"
| "mapping (MultiPolygon c) =
     PDict [(''type'', PStr ''MultiPolygon''),
            (''coordinates'',
             PList (map (\<lambda>g. PList (map (\<lambda>r. PList (map (\<lambda>p. PList (map PNum p)) r)) g)) c))]"
| "mapping (GeometryCollection gs) =
     PDict [(''type'', PStr ''GeometryCollection''), (''geometries'', PList (map mapping gs))]"

section \<open>Geometry\<close>

text \<open>
  \<^verbatim>\<open>Geometry.__eq__\<close>: \<^verbatim>\<open>isinstance(other, Geometry) and self.geom == other.geom\<close>.
  Modelled from the spec: the equality of two shapes belongs to the shape library; by
  section 3 of the specification it is structural and exact.
\<close>

definition Geometry_eq :: "Geometry \<Rightarrow> any \<Rightarrow> bool" where
  "Geometry_eq self other = (case other of Obj g \<Rightarrow> geom self = geom g | Raw v \<Rightarrow> False)"

text \<open>
  \<^verbatim>\<open>Geometry.__eq__\<close> again, with the equality of two shapes, which belongs to the shape
  library, as the parameter \<open>eq\<close>; \<open>Geometry_eq\<close> above is this function with the
  structural equality of the specification.
\<close>

definition Geometry_eq_with ::
  "(BaseGeometry \<Rightarrow> BaseGeometry \<Rightarrow> bool) \<Rightarrow> Geometry \<Rightarrow> any \<Rightarrow> bool" where
  "Geometry_eq_with eq self other =
     (case other of Obj g \<Rightarrow> eq (geom self) (geom g) | Raw v \<Rightarrow> False)"

text \<open>
  \<^verbatim>\<open>Geometry.__hash__\<close>: \<^verbatim>\<open>hash(self.geom)\<close>. The hash of a shape belongs to the shape
  library and is the parameter \<open>hash\<close>.
\<close>

definition Geometry_hash :: "(BaseGeometry \<Rightarrow> int) \<Rightarrow> Geometry \<Rightarrow> int" where
  "Geometry_hash hash self = hash (geom self)"

text \<open>
  Attribute lookup on a Geometry object. The class body defines the names below (and
  \<^verbatim>\<open>__init__\<close> sets \<^verbatim>\<open>geom\<close>); it has no \<^verbatim>\<open>__getattr__\<close> and no base class but
  \<^verbatim>\<open>object\<close>, so any other name that \<^verbatim>\<open>object\<close> does not define raises AttributeError.
\<close>

definition Geometry_attributes :: "string list" where
  "Geometry_attributes =
     [''geom'', ''__init__'', ''__eq__'', ''__hash__'', ''__repr__'', ''__str__'',
      ''to_geo_json'', ''from_geo_json'', ''__get_pydantic_core_schema__'',
      ''__get_pydantic_json_schema__'']"

definition getattr_Geometry :: "string \<Rightarrow> exn + string" where
  "getattr_Geometry name =
     (if name \<in> set Geometry_attributes then Inr name else Inl (AttributeError name))"

text \<open>
  \<^verbatim>\<open>Geometry.__str__\<close>: \<^verbatim>\<open>return self.wkt\<close>. An attribute of the object that were found
  would be a shape or a bound method, and \<^verbatim>\<open>str()\<close> refuses a result that is not a string.
\<close>

definition Geometry_str :: "Geometry \<Rightarrow> exn + string" where
  "Geometry_str self =
     (case getattr_Geometry ''wkt'' of
        Inl e \<Rightarrow> Inl e
      | Inr a \<Rightarrow> Inl (TypeError [Text ''__str__ returned non-string'']))"

text \<open>\<^verbatim>\<open>Geometry.to_geo_json\<close>.\<close>

definition to_geo_json :: "Geometry \<Rightarrow> pyval" where
  "to_geo_json self = mapping (geom self)"

text \<open>
  \<^verbatim>\<open>Geometry.from_geo_json\<close>. \<^verbatim>\<open>value.get("type")\<close> is \<^verbatim>\<open>None\<close> for a missing key, and
  \<^verbatim>\<open>type_ not in _GEOMETRY_TYPES\<close> (here \<open>type0\<close>) compares the value with each of the seven strings.
\<close>

definition from_geo_json :: "pyval \<Rightarrow> exn + Geometry" where
  "from_geo_json v =
     (case v of
        PDict d \<Rightarrow>
          (let type0 = (case map_of d ''type'' of None \<Rightarrow> PNone | Some t \<Rightarrow> t) in
           if type0 \<notin> set (map PStr GEOMETRY_TYPES) then
             Inl (ValueError
               [Text ''allowed_types contains invalid value '', Repr type0,
                Text '' (allowed: '', Repr (PList (map PStr GEOMETRY_TYPES)), Text '')''])
           else (case shape v of Inl e \<Rightarrow> Inl e | Inr s \<Rightarrow> Inr (Geometry s)))
      | _ \<Rightarrow>
          Inl (TypeError
            [Text ''value must be a dict; but '', Repr v, Text '' has type '', TypeName v]))"

text \<open>Python's truth value of an object, for \<^verbatim>\<open>info.context or {}\<close>.\<close>

fun truthy_obj :: "pyobj \<Rightarrow> bool" where
  "truthy_obj ONone = False"
| "truthy_obj (OBool b) = b"
| "truthy_obj (OInt i) = (i \<noteq> 0)"
| "truthy_obj (OFloat x) = (x \<noteq> 0)"
| "truthy_obj (OStr s) = (s \<noteq> [])"
| "truthy_obj (OList xs) = (xs \<noteq> [])"
| "truthy_obj (OTuple xs) = (xs \<noteq> [])"
| "truthy_obj (ODict d) = (d \<noteq> [])"

text \<open>
  An item of the \<^verbatim>\<open>loc\<close> of \<^verbatim>\<open>InitErrorDetails\<close>, which pydantic declares as a tuple of
  strings and ints (a \<^verbatim>\<open>bool\<close> is an \<^verbatim>\<open>int\<close>); pydantic is imported and is not part of the
  source tree, and it refuses any other item with a TypeError.
\<close>

fun loc_item_of :: "pyobj \<Rightarrow> exn + loc_item" where
  "loc_item_of (OStr s) = Inr (LocStr s)"
| "loc_item_of (OInt i) = Inr (LocInt i)"
| "loc_item_of (OBool b) = Inr (LocInt (if b then 1 else 0))"
| "loc_item_of x = Inl (TypeError [Text ''Item in a location must be a string or int''])"

text \<open>The Python object of a location item: a string or an int.\<close>

fun loc_obj :: "loc_item \<Rightarrow> pyobj" where
  "loc_obj (LocStr s) = OStr s"
| "loc_obj (LocInt i) = OInt i"

text \<open>
  The location of a line error, as both validators compute it when they are about to
  raise: \<^verbatim>\<open>context = info.context or {}; loc = context.get("loc_prefix", ()) + ("value",)\<close>.
  Neither statement is guarded: \<^verbatim>\<open>.get\<close> on an object that is not a dictionary raises
  AttributeError, and \<^verbatim>\<open>+ ("value",)\<close> on anything but a tuple raises TypeError (the texts
  of both are shortened here).
\<close>

definition error_loc :: "ValidationInfo \<Rightarrow> exn + loc_item list" where
  "error_loc info =
     (let context =
            (case info_context info of
               None \<Rightarrow> ODict []
             | Some c \<Rightarrow> if truthy_obj c then c else ODict [])
      in case context of
           ODict d \<Rightarrow>
             (case (case map_of d ''loc_prefix'' of None \<Rightarrow> OTuple [] | Some p \<Rightarrow> p) of
                OTuple xs \<Rightarrow> sequence (map loc_item_of (xs @ [OStr ''value'']))
              | _ \<Rightarrow> Inl (TypeError [Text ''loc_prefix cannot be concatenated with a tuple'']))
         | _ \<Rightarrow> Inl (AttributeError ''get''))"

text \<open>
  The function \<^verbatim>\<open>validator\<close> of \<^verbatim>\<open>Geometry.__get_pydantic_core_schema__\<close>:
  \<^verbatim>\<open>try: return cls.from_geo_json(value) / except Exception as e: ...\<close>. The handler
  computes the location and then raises the ValidationError; an exception raised by the
  location step is inside no \<^verbatim>\<open>try\<close> and leaves the validator as it is.
\<close>

definition validator :: "pyval \<Rightarrow> ValidationInfo \<Rightarrow> exn + Geometry" where
  "validator v info =
     (case from_geo_json v of
        Inr g \<Rightarrow> Inr g
      | Inl e \<Rightarrow>
          (case error_loc info of
             Inl e' \<Rightarrow> Inl e'
           | Inr loc \<Rightarrow>
               Inl (ValidationError ''Geometry''
                 [\<lparr>err_type = ''value_error'', err_loc = loc, err_input = Raw v,
                   ctx_error = Text ''invalid geometry value: '' # exn_str e\<rparr>])))"

text \<open>
  Calling an attribute of a Geometry with no argument, for a GeoJSON result: of the names
  the class defines only \<^verbatim>\<open>to_geo_json\<close> is such a method.
\<close>

definition call_attribute :: "Geometry \<Rightarrow> string \<Rightarrow> exn + pyval" where
  "call_attribute self a =
     (if a = ''to_geo_json'' then Inr (to_geo_json self)
      else Inl (TypeError [Text ''not a method that returns a GeoJSON object: '', Text a]))"

text \<open>
  The serialization function registered in \<^verbatim>\<open>Geometry.__get_pydantic_core_schema__\<close>:
  \<^verbatim>\<open>lambda v: v.to_geojson()\<close>.
\<close>

definition serializer :: "Geometry \<Rightarrow> exn + pyval" where
  "serializer v =
     (case getattr_Geometry ''to_geojson'' of
        Inl e \<Rightarrow> Inl e
      | Inr a \<Rightarrow> call_attribute v a)"

section \<open>Validation of a constrained usage site\<close>

text \<open>
  \<^verbatim>\<open>GeometryTypeConstraint.validate\<close>. The function has no \<^verbatim>\<open>return\<close> statement: when it
  does not raise, its result is Python's \<^verbatim>\<open>None\<close>, the \<open>None\<close> of the option type here.
\<close>

definition validate :: "GeometryTypeConstraint \<Rightarrow> Geometry \<Rightarrow> ValidationInfo \<Rightarrow> exn + Geometry option" where
  "validate self v info =
     (let geometry_type = geom_type (geom v) in
      if geometry_type \<notin> set (allowed_types self) then
        (case error_loc info of
           Inl e' \<Rightarrow> Inl e'
         | Inr loc \<Rightarrow>
             Inl (ValidationError ''GeometryTypeConstraint''
               [\<lparr>err_type = ''value_error'', err_loc = loc, err_input = Obj v,
                 ctx_error =
                   [Text ''geometry type not allowed: '', Repr (PStr geometry_type),
                    Text '' (allowed values: '', Repr (PList (map PStr (allowed_types self))),
                    Text '')'']\<rparr>]))
      else Inr None)"

text \<open>
  \<^verbatim>\<open>pydantic_core.core_schema.with_info_after_validator_function(function, schema)\<close> is
  imported from pydantic and is not part of the source tree; it is modelled as pydantic
  documents it: the inner schema validates the input, then \<open>function\<close> is called with
  the validated value, and what \<open>function\<close> returns is the result of the validation.
\<close>

definition with_info_after_validator_function ::
  "('a \<Rightarrow> ValidationInfo \<Rightarrow> exn + 'b) \<Rightarrow> (pyval \<Rightarrow> ValidationInfo \<Rightarrow> exn + 'a)
     \<Rightarrow> pyval \<Rightarrow> ValidationInfo \<Rightarrow> exn + 'b" where
  "with_info_after_validator_function function schema v info =
     (case schema v info of Inl e \<Rightarrow> Inl e | Inr x \<Rightarrow> function x info)"

text \<open>The type a constraint is attached to: Geometry (or a subclass), or another class.\<close>

datatype source_type = Geometry_class | Other_class string

text \<open>
  \<^verbatim>\<open>GeometryTypeConstraint.__get_pydantic_core_schema__\<close>; \<^verbatim>\<open>handler(source)\<close> is the core
  schema of Geometry, whose validation function is \<open>validator\<close>.
\<close>

definition GeometryTypeConstraint_get_pydantic_core_schema ::
  "GeometryTypeConstraint \<Rightarrow> source_type
     \<Rightarrow> exn + (pyval \<Rightarrow> ValidationInfo \<Rightarrow> exn + Geometry option)" where
  "GeometryTypeConstraint_get_pydantic_core_schema self source =
     (case source of
        Other_class n \<Rightarrow>
          Inl (TypeError
            [Text ''GeometryTypeConstraint can only be applied to Geometry; but it was applied to '',
             Text n])
      | Geometry_class \<Rightarrow> Inr (with_info_after_validator_function (validate self) validator))"

section \<open>JSON Schema for GeoJSON geometry\<close>

text \<open>The schema constants of \<^verbatim>\<open>geometry.py\<close>, as Python dictionaries.\<close>

definition BBOX_JSON_SCHEMA :: pyval where
  "BBOX_JSON_SCHEMA =
     PDict [(''type'', PStr ''array''), (''minItems'', PNum 4),
            (''items'', PDict [(''type'', PStr ''number'')])]"

definition POINT_COORDINATES_JSON_SCHEMA :: pyval where
  "POINT_COORDINATES_JSON_SCHEMA =
     PDict [(''type'', PStr ''array''), (''minItems'', PNum 2),
            (''items'', PDict [(''type'', PStr ''number'')])]"

definition LINE_STRING_COORDINATES_JSON_SCHEMA :: pyval where
  "LINE_STRING_COORDINATES_JSON_SCHEMA =
     PDict [(''type'', PStr ''array''), (''minItems'', PNum 2),
            (''items'', POINT_COORDINATES_JSON_SCHEMA)]"

definition MULTI_LINE_STRING_COORDINATES_JSON_SCHEMA :: pyval where
  "MULTI_LINE_STRING_COORDINATES_JSON_SCHEMA =
     PDict [(''type'', PStr ''array''), (''minItems'', PNum 1),
            (''items'', LINE_STRING_COORDINATES_JSON_SCHEMA)]"

definition MULTI_POINT_COORDINATES_JSON_SCHEMA :: pyval where
  "MULTI_POINT_COORDINATES_JSON_SCHEMA =
     PDict [(''type'', PStr ''array''), (''minItems'', PNum 1),
            (''items'', POINT_COORDINATES_JSON_SCHEMA)]"

definition LINEAR_RING_COORDINATES_JSON_SCHEMA :: pyval where
  "LINEAR_RING_COORDINATES_JSON_SCHEMA =
     PDict [(''type'', PStr ''array''), (''minItems'', PNum 4),
            (''items'', POINT_COORDINATES_JSON_SCHEMA)]"

definition POLYGON_COORDINATES_JSON_SCHEMA :: pyval where
  "POLYGON_COORDINATES_JSON_SCHEMA =
     PDict [(''type'', PStr ''array''), (''minItems'', PNum 1),
            (''items'', LINEAR_RING_COORDINATES_JSON_SCHEMA)]"

definition MULTI_POLYGON_COORDINATES_JSON_SCHEMA :: pyval where
  "MULTI_POLYGON_COORDINATES_JSON_SCHEMA =
     PDict [(''type'', PStr ''array''), (''minItems'', PNum 1),
            (''items'', POLYGON_COORDINATES_JSON_SCHEMA)]"

text \<open>Python's truth value of a value, for \<^verbatim>\<open>if coordinates:\<close> and \<^verbatim>\<open>if geometries:\<close>.\<close>

fun truthy :: "pyval \<Rightarrow> bool" where
  "truthy PNone = False"
| "truthy (PBool b) = b"
| "truthy (PNum x) = (x \<noteq> 0)"
| "truthy (PStr s) = (s \<noteq> [])"
| "truthy (PList xs) = (xs \<noteq> [])"
| "truthy (PDict d) = (d \<noteq> [])"

text \<open>\<^verbatim>\<open>d[k] = v\<close>: the value of an existing key is replaced, a new key goes last.\<close>

fun dict_set :: "(string \<times> pyval) list \<Rightarrow> string \<Rightarrow> pyval \<Rightarrow> (string \<times> pyval) list" where
  "dict_set [] k v = [(k, v)]"
| "dict_set ((k', v') # d) k v = (if k' = k then (k, v) # d else (k', v') # dict_set d k v)"

text \<open>\<^verbatim>\<open>d[k]\<close>: a missing key raises KeyError.\<close>

definition getitem :: "(string \<times> pyval) list \<Rightarrow> string \<Rightarrow> exn + pyval" where
  "getitem d k = (case map_of d k of None \<Rightarrow> Inl (KeyError k) | Some v \<Rightarrow> Inr v)"

text \<open>
  One \<^verbatim>\<open>if schema: required.append(key); properties[key] = schema\<close> step of
  \<^verbatim>\<open>geometry_json_schema\<close>, on the pair of \<^verbatim>\<open>required\<close> and \<^verbatim>\<open>properties\<close>; the default
  \<^verbatim>\<open>None\<close> of the optional argument is \<open>None\<close>.
\<close>

definition require :: "string \<Rightarrow> pyval option \<Rightarrow> pyval list \<times> (string \<times> pyval) list
    \<Rightarrow> pyval list \<times> (string \<times> pyval) list" where
  "require key schema st =
     (case schema of
        None \<Rightarrow> st
      | Some s \<Rightarrow>
          if truthy s then (fst st @ [PStr key], dict_set (snd st) key s) else st)"

definition geometry_json_schema :: "string \<Rightarrow> pyval option \<Rightarrow> pyval option \<Rightarrow> pyval" where
  "geometry_json_schema geometry_type coordinates geometries =
     (let properties =
            [(''type'', PDict [(''type'', PStr ''string''), (''const'', PStr geometry_type)]),
             (''bbox'', BBOX_JSON_SCHEMA)];
          required = [PStr ''type''];
          st = require ''geometries'' geometries
                 (require ''coordinates'' coordinates (required, properties))
      in PDict [(''type'', PStr ''object''), (''required'', PList (fst st)),
                (''properties'', PDict (snd st))])"

definition LINE_STRING_GEOMETRY_JSON_SCHEMA :: pyval where
  "LINE_STRING_GEOMETRY_JSON_SCHEMA =
     geometry_json_schema ''LineString'' (Some LINE_STRING_COORDINATES_JSON_SCHEMA) None"

definition POINT_GEOMETRY_JSON_SCHEMA :: pyval where
  "POINT_GEOMETRY_JSON_SCHEMA =
     geometry_json_schema ''Point'' (Some POINT_COORDINATES_JSON_SCHEMA) None"

definition POLYGON_GEOMETRY_JSON_SCHEMA :: pyval where
  "POLYGON_GEOMETRY_JSON_SCHEMA =
     geometry_json_schema ''Polygon'' (Some POLYGON_COORDINATES_JSON_SCHEMA) None"

definition MULTI_LINE_STRING_GEOMETRY_JSON_SCHEMA :: pyval where
  "MULTI_LINE_STRING_GEOMETRY_JSON_SCHEMA =
     geometry_json_schema ''MultiLineString'' (Some MULTI_LINE_STRING_COORDINATES_JSON_SCHEMA) None"

definition MULTI_POINT_GEOMETRY_JSON_SCHEMA :: pyval where
  "MULTI_POINT_GEOMETRY_JSON_SCHEMA =
     geometry_json_schema ''MultiPoint'' (Some MULTI_POINT_COORDINATES_JSON_SCHEMA) None"

definition MULTI_POLYGON_GEOMETRY_JSON_SCHEMA :: pyval where
  "MULTI_POLYGON_GEOMETRY_JSON_SCHEMA =
     geometry_json_schema ''MultiPolygon'' (Some MULTI_POLYGON_COORDINATES_JSON_SCHEMA) None"

definition GEOMETRY_COLLECTION_JSON_SCHEMA :: pyval where
  "GEOMETRY_COLLECTION_JSON_SCHEMA =
     geometry_json_schema ''GeometryCollection'' None
       (Some (PDict
          [(''oneOf'',
            PList [LINE_STRING_GEOMETRY_JSON_SCHEMA, POINT_GEOMETRY_JSON_SCHEMA,
                   POLYGON_GEOMETRY_JSON_SCHEMA, MULTI_LINE_STRING_GEOMETRY_JSON_SCHEMA,
                   MULTI_POINT_GEOMETRY_JSON_SCHEMA, MULTI_POLYGON_GEOMETRY_JSON_SCHEMA])]))"

definition GEOMETRY_JSON_SCHEMA :: "(string \<times> pyval) list" where
  "GEOMETRY_JSON_SCHEMA =
     [(''GeometryCollection'', GEOMETRY_COLLECTION_JSON_SCHEMA),
      (''LineString'', LINE_STRING_GEOMETRY_JSON_SCHEMA),
      (''Point'', POINT_GEOMETRY_JSON_SCHEMA),
      (''Polygon'', POLYGON_GEOMETRY_JSON_SCHEMA),
      (''MultiLineString'', MULTI_LINE_STRING_GEOMETRY_JSON_SCHEMA),
      (''MultiPoint'', MULTI_POINT_GEOMETRY_JSON_SCHEMA),
      (''MultiPolygon'', MULTI_POLYGON_GEOMETRY_JSON_SCHEMA)]"

section \<open>Schema emission\<close>

text \<open>
  \<^verbatim>\<open>GeometryTypeConstraint.__get_pydantic_json_schema__\<close>; neither \<^verbatim>\<open>source\<close> nor
  \<^verbatim>\<open>handler\<close> is used by the source.
\<close>

definition GeometryTypeConstraint_get_pydantic_json_schema ::
  "GeometryTypeConstraint \<Rightarrow> exn + pyval" where
  "GeometryTypeConstraint_get_pydantic_json_schema self =
     (if length (allowed_types self) = 1 then
        getitem GEOMETRY_JSON_SCHEMA (allowed_types self ! 0)
      else
        (case sequence (map (getitem GEOMETRY_JSON_SCHEMA) (allowed_types self)) of
           Inl e \<Rightarrow> Inl e
         | Inr allowed_schemas \<Rightarrow> Inr (PDict [(''oneOf'', PList allowed_schemas)])))"

text \<open>\<^verbatim>\<open>_ALL_GEOMETRY_ALLOWED = GeometryTypeConstraint(*_GEOMETRY_TYPES)\<close>.\<close>

definition ALL_GEOMETRY_ALLOWED :: "exn + GeometryTypeConstraint" where
  "ALL_GEOMETRY_ALLOWED = GeometryTypeConstraint_init GEOMETRY_TYPES"

text \<open>\<^verbatim>\<open>Geometry.__get_pydantic_json_schema__\<close>.\<close>

definition Geometry_get_pydantic_json_schema :: "exn + pyval" where
  "Geometry_get_pydantic_json_schema =
     (case ALL_GEOMETRY_ALLOWED of
        Inl e \<Rightarrow> Inl e
      | Inr c \<Rightarrow> GeometryTypeConstraint_get_pydantic_json_schema c)"

section \<open>Construction of a constraint\<close>

lemma validate_geometry_types_success:
  "validate_geometry_types a = Inr ts \<longleftrightarrow>
     a \<noteq> [] \<and> set a \<subseteq> set GEOMETRY_TYPES \<and> distinct a \<and> ts = sort a"
  by (auto simp: validate_geometry_types_def list_all_iff distinct_card card_distinct)

lemma validate_geometry_types_failure:
  "(\<exists>m. validate_geometry_types a = Inl (ValueError m)) \<longleftrightarrow>
     a = [] \<or> \<not> set a \<subseteq> set GEOMETRY_TYPES \<or> \<not> distinct a"
  by (auto simp: validate_geometry_types_def list_all_iff distinct_card card_distinct)

lemma sort_canonical:
  "distinct a \<Longrightarrow> distinct b \<Longrightarrow> set a = set b \<Longrightarrow> sort a = sort (b :: string list)"
  by (metis distinct_sort sorted_sort set_sort sorted_distinct_set_unique)

lemma init_success:
  "GeometryTypeConstraint_init a = Inr c \<longleftrightarrow>
     a \<noteq> [] \<and> set a \<subseteq> set GEOMETRY_TYPES \<and> distinct a \<and> c = \<lparr>allowed_types = sort a\<rparr>"
proof (cases "validate_geometry_types a")
  case (Inl e)
  then have "\<not> (a \<noteq> [] \<and> set a \<subseteq> set GEOMETRY_TYPES \<and> distinct a)"
    using validate_geometry_types_success [of a "sort a"] by auto
  then show ?thesis using Inl by (auto simp: GeometryTypeConstraint_init_def)
next
  case (Inr ts)
  then show ?thesis using validate_geometry_types_success [of a ts]
    by (auto simp: GeometryTypeConstraint_init_def)
qed

lemma init_failure:
  "(\<exists>m. GeometryTypeConstraint_init a = Inl (ValueError m)) \<longleftrightarrow>
      a = [] \<or> \<not> set a \<subseteq> set GEOMETRY_TYPES \<or> \<not> distinct a"
  using validate_geometry_types_failure [of a]
  by (auto simp: GeometryTypeConstraint_init_def split: sum.splits)

text \<open>
  C6, as the code has it. Constructing a GeometryTypeConstraint fails with a ValueError
  exactly when no kind name is given, or a given name is not one of the seven recognized
  kinds, or a name is given twice. Otherwise it succeeds, and the stored \<open>allowed_types\<close> is
  the sorted tuple of the given names. Hence two constraints built from the same set of
  kinds, in whatever order, store equal sorted tuples and emit the same JSON Schema.
\<close>

theorem constraint_construction:
  "((\<exists>m. GeometryTypeConstraint_init a = Inl (ValueError m)) \<longleftrightarrow>
      a = [] \<or> \<not> set a \<subseteq> set GEOMETRY_TYPES \<or> \<not> distinct a)
   \<and> (GeometryTypeConstraint_init a = Inr c \<longleftrightarrow>
        a \<noteq> [] \<and> set a \<subseteq> set GEOMETRY_TYPES \<and> distinct a \<and> c = \<lparr>allowed_types = sort a\<rparr>)
   \<and> (GeometryTypeConstraint_init a = Inr c \<and> GeometryTypeConstraint_init b = Inr d \<and> set a = set b \<longrightarrow>
        allowed_types c = allowed_types d \<and> sorted (allowed_types c) \<and>
        set (allowed_types c) = set a \<and>
        GeometryTypeConstraint_get_pydantic_json_schema c =
          GeometryTypeConstraint_get_pydantic_json_schema d)"
proof (intro conjI)
  show "(\<exists>m. GeometryTypeConstraint_init a = Inl (ValueError m)) \<longleftrightarrow>
      a = [] \<or> \<not> set a \<subseteq> set GEOMETRY_TYPES \<or> \<not> distinct a"
    by (rule init_failure)
  show "GeometryTypeConstraint_init a = Inr c \<longleftrightarrow>
        a \<noteq> [] \<and> set a \<subseteq> set GEOMETRY_TYPES \<and> distinct a \<and> c = \<lparr>allowed_types = sort a\<rparr>"
    by (rule init_success)
  show "GeometryTypeConstraint_init a = Inr c \<and> GeometryTypeConstraint_init b = Inr d \<and> set a = set b \<longrightarrow>
        allowed_types c = allowed_types d \<and> sorted (allowed_types c) \<and>
        set (allowed_types c) = set a \<and>
        GeometryTypeConstraint_get_pydantic_json_schema c =
          GeometryTypeConstraint_get_pydantic_json_schema d"
  proof
    assume h: "GeometryTypeConstraint_init a = Inr c \<and> GeometryTypeConstraint_init b = Inr d \<and> set a = set b"
    then have a: "distinct a" "c = \<lparr>allowed_types = sort a\<rparr>"
      and b: "distinct b" "d = \<lparr>allowed_types = sort b\<rparr>" and ab: "set a = set b"
      by (simp_all add: init_success)
    have "sort a = sort b" using a(1) b(1) ab by (rule sort_canonical)
    then have cd: "c = d" using a(2) b(2) by simp
    have ac: "sorted (allowed_types c)" "set (allowed_types c) = set a"
      using a(2) by simp_all
    show "allowed_types c = allowed_types d \<and> sorted (allowed_types c) \<and>
        set (allowed_types c) = set a \<and>
        GeometryTypeConstraint_get_pydantic_json_schema c =
          GeometryTypeConstraint_get_pydantic_json_schema d"
      using cd ac by blast
  qed
qed

theorem constraint_construction_witness:
  "GeometryTypeConstraint_init [''Polygon'', ''Point''] = Inr \<lparr>allowed_types = [''Point'', ''Polygon'']\<rparr>
   \<and> GeometryTypeConstraint_init [''Point'', ''Polygon''] = Inr \<lparr>allowed_types = [''Point'', ''Polygon'']\<rparr>
   \<and> (\<exists>m. GeometryTypeConstraint_init [] = Inl (ValueError m))
   \<and> (\<exists>m. GeometryTypeConstraint_init [''Point'', ''Point''] = Inl (ValueError m))
   \<and> (\<exists>m. GeometryTypeConstraint_init [''Point'', ''Blob''] = Inl (ValueError m))"
proof -
  have 1: "GeometryTypeConstraint_init [''Polygon'', ''Point''] = Inr \<lparr>allowed_types = [''Point'', ''Polygon'']\<rparr>"
    using constraint_construction [of "[''Polygon'', ''Point'']" "\<lparr>allowed_types = [''Point'', ''Polygon'']\<rparr>"]
    by (simp add: GEOMETRY_TYPES_def)
  have 2: "GeometryTypeConstraint_init [''Point'', ''Polygon''] = Inr \<lparr>allowed_types = [''Point'', ''Polygon'']\<rparr>"
    using constraint_construction [of "[''Point'', ''Polygon'']" "\<lparr>allowed_types = [''Point'', ''Polygon'']\<rparr>"]
    by (simp add: GEOMETRY_TYPES_def)
  have 3: "\<exists>m. GeometryTypeConstraint_init [] = Inl (ValueError m)"
    using constraint_construction [of "[]"] by simp
  have 4: "\<exists>m. GeometryTypeConstraint_init [''Point'', ''Point''] = Inl (ValueError m)"
    using constraint_construction [of "[''Point'', ''Point'']"] by simp
  have 5: "\<exists>m. GeometryTypeConstraint_init [''Point'', ''Blob''] = Inl (ValueError m)"
    using constraint_construction [of "[''Point'', ''Blob'']"] by (simp add: GEOMETRY_TYPES_def)
  show ?thesis using 1 2 3 4 5 by blast
qed

text \<open>
  Two constraints built one after the other from the same two kinds in the two orders are
  two objects: they store the same tuple, and \<^verbatim>\<open>==\<close> on them is false.
\<close>

theorem constraints_compare_by_identity:
  "new_GeometryTypeConstraint [''Polygon'', ''Point''] 0 =
     Inr ((0, \<lparr>allowed_types = [''Point'', ''Polygon'']\<rparr>), 1)
   \<and> new_GeometryTypeConstraint [''Point'', ''Polygon''] 1 =
     Inr ((1, \<lparr>allowed_types = [''Point'', ''Polygon'']\<rparr>), 2)
   \<and> \<not> GeometryTypeConstraint_eq (0, \<lparr>allowed_types = [''Point'', ''Polygon'']\<rparr>)
         (1, \<lparr>allowed_types = [''Point'', ''Polygon'']\<rparr>)"
proof -
  have 1: "GeometryTypeConstraint_init [''Polygon'', ''Point''] =
      Inr \<lparr>allowed_types = [''Point'', ''Polygon'']\<rparr>"
    by (simp add: init_success GEOMETRY_TYPES_def)
  have 2: "GeometryTypeConstraint_init [''Point'', ''Polygon''] =
      Inr \<lparr>allowed_types = [''Point'', ''Polygon'']\<rparr>"
    by (simp add: init_success GEOMETRY_TYPES_def)
  show ?thesis
    by (simp add: new_GeometryTypeConstraint_def GeometryTypeConstraint_eq_def 1 2)
qed

section \<open>The schema fragments\<close>

lemmas schema_defs =
  BBOX_JSON_SCHEMA_def POINT_COORDINATES_JSON_SCHEMA_def LINE_STRING_COORDINATES_JSON_SCHEMA_def
  MULTI_LINE_STRING_COORDINATES_JSON_SCHEMA_def MULTI_POINT_COORDINATES_JSON_SCHEMA_def
  LINEAR_RING_COORDINATES_JSON_SCHEMA_def POLYGON_COORDINATES_JSON_SCHEMA_def
  MULTI_POLYGON_COORDINATES_JSON_SCHEMA_def

text \<open>
  The Point and the Polygon fragment: \<^verbatim>\<open>type\<close> and \<^verbatim>\<open>coordinates\<close> are required,
  \<^verbatim>\<open>bbox\<close> is an optional array of at least 4 numbers; the coordinates of a Point are an
  array of at least 2 numbers, those of a Polygon an array of at least 1 ring, a ring an
  array of at least 4 points.
\<close>

lemma point_fragment:
  "POINT_GEOMETRY_JSON_SCHEMA =
     PDict [(''type'', PStr ''object''),
            (''required'', PList [PStr ''type'', PStr ''coordinates'']),
            (''properties'',
             PDict [(''type'', PDict [(''type'', PStr ''string''), (''const'', PStr ''Point'')]),
                    (''bbox'',
                     PDict [(''type'', PStr ''array''), (''minItems'', PNum 4),
                            (''items'', PDict [(''type'', PStr ''number'')])]),
                    (''coordinates'',
                     PDict [(''type'', PStr ''array''), (''minItems'', PNum 2),
                            (''items'', PDict [(''type'', PStr ''number'')])])])]"
  by (simp add: POINT_GEOMETRY_JSON_SCHEMA_def geometry_json_schema_def require_def
      POINT_COORDINATES_JSON_SCHEMA_def BBOX_JSON_SCHEMA_def)

lemma polygon_fragment:
  "POLYGON_GEOMETRY_JSON_SCHEMA =
     PDict [(''type'', PStr ''object''),
            (''required'', PList [PStr ''type'', PStr ''coordinates'']),
            (''properties'',
             PDict [(''type'', PDict [(''type'', PStr ''string''), (''const'', PStr ''Polygon'')]),
                    (''bbox'',
                     PDict [(''type'', PStr ''array''), (''minItems'', PNum 4),
                            (''items'', PDict [(''type'', PStr ''number'')])]),
                    (''coordinates'',
                     PDict [(''type'', PStr ''array''), (''minItems'', PNum 1),
                            (''items'',
                             PDict [(''type'', PStr ''array''), (''minItems'', PNum 4),
                                    (''items'',
                                     PDict [(''type'', PStr ''array''), (''minItems'', PNum 2),
                                            (''items'', PDict [(''type'', PStr ''number'')])])])])])]"
  by (simp add: POLYGON_GEOMETRY_JSON_SCHEMA_def geometry_json_schema_def require_def
      schema_defs)

lemma fragment_shape:
  "c \<noteq> [] \<Longrightarrow> geometry_json_schema t (Some (PDict c)) None =
     PDict [(''type'', PStr ''object''),
            (''required'', PList [PStr ''type'', PStr ''coordinates'']),
            (''properties'',
             PDict [(''type'', PDict [(''type'', PStr ''string''), (''const'', PStr t)]),
                    (''bbox'', BBOX_JSON_SCHEMA),
                    (''coordinates'', PDict c)])]"
  by (simp add: geometry_json_schema_def require_def)

text \<open>
  C4. The GeometryCollection fragment as the code builds it. Its required property
  \<^verbatim>\<open>geometries\<close> is the \<^verbatim>\<open>oneOf\<close> node over the six non-collection fragments itself: the
  node has no \<^verbatim>\<open>"type": "array"\<close> and no \<^verbatim>\<open>items\<close>, so the fragment does not describe
  \<^verbatim>\<open>geometries\<close> as an array whose items are that union.
\<close>

theorem geometry_collection_fragment:
  "getitem GEOMETRY_JSON_SCHEMA ''GeometryCollection'' =
     Inr (PDict
       [(''type'', PStr ''object''),
        (''required'', PList [PStr ''type'', PStr ''geometries'']),
        (''properties'',
         PDict [(''type'',
                 PDict [(''type'', PStr ''string''), (''const'', PStr ''GeometryCollection'')]),
                (''bbox'', BBOX_JSON_SCHEMA),
                (''geometries'',
                 PDict [(''oneOf'',
                   PList [LINE_STRING_GEOMETRY_JSON_SCHEMA, POINT_GEOMETRY_JSON_SCHEMA,
                          POLYGON_GEOMETRY_JSON_SCHEMA, MULTI_LINE_STRING_GEOMETRY_JSON_SCHEMA,
                          MULTI_POINT_GEOMETRY_JSON_SCHEMA,
                          MULTI_POLYGON_GEOMETRY_JSON_SCHEMA])])])])"
  by (simp add: getitem_def GEOMETRY_JSON_SCHEMA_def GEOMETRY_COLLECTION_JSON_SCHEMA_def
      geometry_json_schema_def require_def)

section \<open>Emission of the schema of a usage site\<close>

lemma getitem_known:
  "t \<in> set GEOMETRY_TYPES \<Longrightarrow> \<exists>f. getitem GEOMETRY_JSON_SCHEMA t = Inr f"
  by (auto simp: GEOMETRY_TYPES_def getitem_def GEOMETRY_JSON_SCHEMA_def)

lemma sequence_map_Inr:
  "\<forall>x\<in>set xs. \<exists>y. f x = Inr y \<Longrightarrow>
     \<exists>ys. sequence (map f xs) = Inr ys \<and> list_all2 (\<lambda>x y. f x = Inr y) xs ys"
proof (induction xs)
  case Nil
  then show ?case by simp
next
  case (Cons x xs)
  then obtain y ys where "f x = Inr y" "sequence (map f xs) = Inr ys"
    "list_all2 (\<lambda>x y. f x = Inr y) xs ys" by auto
  then show ?case by auto
qed

lemma all_allowed: "ALL_GEOMETRY_ALLOWED =
   Inr \<lparr>allowed_types = [''GeometryCollection'', ''LineString'', ''MultiLineString'',
      ''MultiPoint'', ''MultiPolygon'', ''Point'', ''Polygon'']\<rparr>"
  by (simp add: ALL_GEOMETRY_ALLOWED_def init_success) (simp add: GEOMETRY_TYPES_def)

lemma unconstrained:
  "Geometry_get_pydantic_json_schema =
     Inr (PDict [(''oneOf'',
       PList [GEOMETRY_COLLECTION_JSON_SCHEMA, LINE_STRING_GEOMETRY_JSON_SCHEMA,
              MULTI_LINE_STRING_GEOMETRY_JSON_SCHEMA, MULTI_POINT_GEOMETRY_JSON_SCHEMA,
              MULTI_POLYGON_GEOMETRY_JSON_SCHEMA, POINT_GEOMETRY_JSON_SCHEMA,
              POLYGON_GEOMETRY_JSON_SCHEMA])])"
  by (simp add: Geometry_get_pydantic_json_schema_def all_allowed
      GeometryTypeConstraint_get_pydantic_json_schema_def getitem_def GEOMETRY_JSON_SCHEMA_def)

lemma getitem_map_of: "getitem d k = Inr f \<longleftrightarrow> map_of d k = Some f"
  by (simp add: getitem_def split: option.splits)

text \<open>
  C3. For a constraint that was constructed successfully: when it allows exactly one kind,
  the emitted schema is the fragment of that kind itself, with no \<^verbatim>\<open>oneOf\<close> around it;
  otherwise the emitted schema is a \<^verbatim>\<open>oneOf\<close> node whose alternatives are, in order, the
  fragments of the allowed kinds. The unconstrained Geometry emits the \<^verbatim>\<open>oneOf\<close> over the
  fragments of all seven kinds.
\<close>

theorem schema_emission:
  "(GeometryTypeConstraint_init a = Inr c \<longrightarrow>
      (length (allowed_types c) = 1 \<longrightarrow>
         (\<exists>t f. allowed_types c = [t] \<and> map_of GEOMETRY_JSON_SCHEMA t = Some f \<and>
            GeometryTypeConstraint_get_pydantic_json_schema c = Inr f))
      \<and> (length (allowed_types c) \<noteq> 1 \<longrightarrow>
         (\<exists>fs. GeometryTypeConstraint_get_pydantic_json_schema c =
                 Inr (PDict [(''oneOf'', PList fs)]) \<and>
               list_all2 (\<lambda>t f. map_of GEOMETRY_JSON_SCHEMA t = Some f) (allowed_types c) fs)))
   \<and> Geometry_get_pydantic_json_schema =
       Inr (PDict [(''oneOf'',
         PList [GEOMETRY_COLLECTION_JSON_SCHEMA, LINE_STRING_GEOMETRY_JSON_SCHEMA,
                MULTI_LINE_STRING_GEOMETRY_JSON_SCHEMA, MULTI_POINT_GEOMETRY_JSON_SCHEMA,
                MULTI_POLYGON_GEOMETRY_JSON_SCHEMA, POINT_GEOMETRY_JSON_SCHEMA,
                POLYGON_GEOMETRY_JSON_SCHEMA])])"
proof (intro conjI impI)
  assume init: "GeometryTypeConstraint_init a = Inr c"
  then have known: "\<forall>t\<in>set (allowed_types c). \<exists>f. getitem GEOMETRY_JSON_SCHEMA t = Inr f"
    using getitem_known by (auto simp: init_success)
  {
    assume "length (allowed_types c) = 1"
    then obtain t where t: "allowed_types c = [t]"
      by (cases "allowed_types c") auto
    then obtain f where "getitem GEOMETRY_JSON_SCHEMA t = Inr f"
      using known by auto
    then show "\<exists>t f. allowed_types c = [t] \<and> map_of GEOMETRY_JSON_SCHEMA t = Some f \<and>
            GeometryTypeConstraint_get_pydantic_json_schema c = Inr f"
      using t by (auto simp: GeometryTypeConstraint_get_pydantic_json_schema_def getitem_map_of)
  }
  {
    assume n: "length (allowed_types c) \<noteq> 1"
    obtain fs where fs: "sequence (map (getitem GEOMETRY_JSON_SCHEMA) (allowed_types c)) = Inr fs"
      "list_all2 (\<lambda>t f. getitem GEOMETRY_JSON_SCHEMA t = Inr f) (allowed_types c) fs"
      using sequence_map_Inr [OF known] by blast
    have "list_all2 (\<lambda>t f. map_of GEOMETRY_JSON_SCHEMA t = Some f) (allowed_types c) fs"
      using fs(2) by (simp add: getitem_map_of)
    then show "\<exists>fs. GeometryTypeConstraint_get_pydantic_json_schema c =
                 Inr (PDict [(''oneOf'', PList fs)]) \<and>
               list_all2 (\<lambda>t f. map_of GEOMETRY_JSON_SCHEMA t = Some f) (allowed_types c) fs"
      using n fs(1) by (auto simp: GeometryTypeConstraint_get_pydantic_json_schema_def)
  }
next
  show "Geometry_get_pydantic_json_schema =
       Inr (PDict [(''oneOf'',
         PList [GEOMETRY_COLLECTION_JSON_SCHEMA, LINE_STRING_GEOMETRY_JSON_SCHEMA,
                MULTI_LINE_STRING_GEOMETRY_JSON_SCHEMA, MULTI_POINT_GEOMETRY_JSON_SCHEMA,
                MULTI_POLYGON_GEOMETRY_JSON_SCHEMA, POINT_GEOMETRY_JSON_SCHEMA,
                POLYGON_GEOMETRY_JSON_SCHEMA])])"
    by (rule unconstrained)
qed

theorem schema_emission_witness:
  "GeometryTypeConstraint_init [''Polygon''] = Inr \<lparr>allowed_types = [''Polygon'']\<rparr>
   \<and> GeometryTypeConstraint_get_pydantic_json_schema \<lparr>allowed_types = [''Polygon'']\<rparr> =
       Inr POLYGON_GEOMETRY_JSON_SCHEMA
   \<and> GeometryTypeConstraint_init [''Polygon'', ''MultiPolygon''] =
       Inr \<lparr>allowed_types = [''MultiPolygon'', ''Polygon'']\<rparr>
   \<and> GeometryTypeConstraint_get_pydantic_json_schema \<lparr>allowed_types = [''MultiPolygon'', ''Polygon'']\<rparr> =
       Inr (PDict [(''oneOf'',
         PList [MULTI_POLYGON_GEOMETRY_JSON_SCHEMA, POLYGON_GEOMETRY_JSON_SCHEMA])])"
proof -
  have i1: "GeometryTypeConstraint_init [''Polygon''] = Inr \<lparr>allowed_types = [''Polygon'']\<rparr>"
    by (simp add: init_success GEOMETRY_TYPES_def)
  have i2: "GeometryTypeConstraint_init [''Polygon'', ''MultiPolygon''] =
       Inr \<lparr>allowed_types = [''MultiPolygon'', ''Polygon'']\<rparr>"
    by (simp add: init_success GEOMETRY_TYPES_def)
  have s1: "GeometryTypeConstraint_get_pydantic_json_schema \<lparr>allowed_types = [''Polygon'']\<rparr> =
       Inr POLYGON_GEOMETRY_JSON_SCHEMA"
    using schema_emission [of "[''Polygon'']" "\<lparr>allowed_types = [''Polygon'']\<rparr>"] i1
    by (simp add: GEOMETRY_JSON_SCHEMA_def)
  have s2: "GeometryTypeConstraint_get_pydantic_json_schema \<lparr>allowed_types = [''MultiPolygon'', ''Polygon'']\<rparr> =
       Inr (PDict [(''oneOf'',
         PList [MULTI_POLYGON_GEOMETRY_JSON_SCHEMA, POLYGON_GEOMETRY_JSON_SCHEMA])])"
    using schema_emission [of "[''Polygon'', ''MultiPolygon'']"
        "\<lparr>allowed_types = [''MultiPolygon'', ''Polygon'']\<rparr>"] i2
    by (auto simp: GEOMETRY_JSON_SCHEMA_def list_all2_Cons1)
  show ?thesis using i1 i2 s1 s2 by blast
qed

section \<open>Rendering and serialization\<close>

text \<open>
  C7. \<^verbatim>\<open>str(g)\<close> of a Geometry: \<^verbatim>\<open>__str__\<close> reads \<^verbatim>\<open>self.wkt\<close>, an attribute that a
  Geometry does not have (the text form belongs to \<^verbatim>\<open>self.geom\<close>), so the rendering raises
  AttributeError for every Geometry and produces no string.
\<close>

theorem str_raises: "Geometry_str g = Inl (AttributeError ''wkt'')"
  by (simp add: Geometry_str_def getattr_Geometry_def Geometry_attributes_def)

text \<open>
  C8. The serialization function registered in the core schema calls \<^verbatim>\<open>v.to_geojson()\<close>,
  while the method of the class is named \<^verbatim>\<open>to_geo_json\<close>: it raises AttributeError for
  every Geometry and so never returns what \<^verbatim>\<open>to_geo_json\<close> returns.
\<close>

theorem serializer_raises:
  "serializer g = Inl (AttributeError ''to_geojson'') \<and> serializer g \<noteq> Inr (to_geo_json g)"
  by (simp add: serializer_def getattr_Geometry_def Geometry_attributes_def)

section \<open>Validation\<close>

text \<open>
  The location step for the contexts it accepts: no context or a false one, a dictionary
  without \<^verbatim>\<open>loc_prefix\<close>, and a dictionary whose \<^verbatim>\<open>loc_prefix\<close> is a tuple of strings and
  ints.
\<close>

lemma sequence_loc_items: "sequence (map loc_item_of (map loc_obj ls)) = Inr ls"
proof (induction ls)
  case Nil
  then show ?case by simp
next
  case (Cons l ls)
  then show ?case by (cases l) (simp_all add: comp_def)
qed

lemma error_loc_no_context:
  "info_context info = None \<or> (\<exists>c. info_context info = Some c \<and> \<not> truthy_obj c) \<Longrightarrow>
     error_loc info = Inr [LocStr ''value'']"
  by (auto simp: error_loc_def)

lemma error_loc_no_prefix:
  "info_context info = Some (ODict d) \<Longrightarrow> map_of d ''loc_prefix'' = None \<Longrightarrow>
     error_loc info = Inr [LocStr ''value'']"
  by (simp add: error_loc_def)

lemma error_loc_prefix:
  assumes "info_context info = Some (ODict d)"
    and "map_of d ''loc_prefix'' = Some (OTuple (map loc_obj prefix))"
  shows "error_loc info = Inr (prefix @ [LocStr ''value''])"
proof -
  have d: "d \<noteq> []" using assms(2) by auto
  have "sequence (map loc_item_of (map loc_obj (prefix @ [LocStr ''value'']))) =
      Inr (prefix @ [LocStr ''value''])"
    by (rule sequence_loc_items)
  then show ?thesis using assms d by (simp add: error_loc_def)
qed

text \<open>
  The function \<open>validate\<close> of a constraint: a kind outside the allowed ones raises a
  ValidationError with one line error that carries the location, the offending kind and
  the allowed kinds; an allowed kind ends the function without a \<^verbatim>\<open>return\<close>.
\<close>

lemma validate_passes:
  "geom_type (geom g) \<in> set (allowed_types c) \<Longrightarrow> validate c g info = Inr None"
  by (simp add: validate_def)

lemma validate_rejects:
  "geom_type (geom g) \<notin> set (allowed_types c) \<Longrightarrow> error_loc info = Inr loc \<Longrightarrow>
     validate c g info =
       Inl (ValidationError ''GeometryTypeConstraint''
         [\<lparr>err_type = ''value_error'', err_loc = loc, err_input = Obj g,
           ctx_error =
             [Text ''geometry type not allowed: '', Repr (PStr (geom_type (geom g))),
              Text '' (allowed values: '', Repr (PList (map PStr (allowed_types c))),
              Text '')'']\<rparr>])"
  by (simp add: validate_def)

lemma validate_rejects_LineString:
  "validate \<lparr>allowed_types = [''MultiPoint'', ''Point'']\<rparr> (Geometry (LineString [[0, 0], [1, 1]]))
     \<lparr>info_context = None\<rparr> =
       Inl (ValidationError ''GeometryTypeConstraint''
         [\<lparr>err_type = ''value_error'', err_loc = [LocStr ''value''],
           err_input = Obj (Geometry (LineString [[0, 0], [1, 1]])),
           ctx_error =
             [Text ''geometry type not allowed: '', Repr (PStr ''LineString''),
              Text '' (allowed values: '', Repr (PList [PStr ''MultiPoint'', PStr ''Point'']),
              Text '')'']\<rparr>])"
  by (simp add: validate_def error_loc_def)

lemma shape_point_example:
  "shape (PDict [(''type'', PStr ''Point''), (''coordinates'', PList [PNum 1, PNum 2])]) = Inr (Point [1, 2])"
  by (simp add: coordinates_of_def position_def nested_def)

lemma validator_point_example:
  "validator (PDict [(''type'', PStr ''Point''), (''coordinates'', PList [PNum 1, PNum 2])]) info
     = Inr (Geometry (Point [1, 2]))"
  by (simp add: validator_def from_geo_json_def GEOMETRY_TYPES_def coordinates_of_def position_def nested_def)

text \<open>
  C2. A usage site constrained to Point and MultiPoint, validating the GeoJSON of a Point:
  the inner validator decodes the Geometry, the constraint accepts its kind, and the value
  that results from the validation pipeline of the site is \<^verbatim>\<open>None\<close>, not that Geometry.
\<close>

theorem constrained_validation_returns_None:
  "GeometryTypeConstraint_init [''Point'', ''MultiPoint''] = Inr \<lparr>allowed_types = [''MultiPoint'', ''Point'']\<rparr>
   \<and> validator (PDict [(''type'', PStr ''Point''), (''coordinates'', PList [PNum 1, PNum 2])])
        \<lparr>info_context = None\<rparr> = Inr (Geometry (Point [1, 2]))
   \<and> (\<exists>f. GeometryTypeConstraint_get_pydantic_core_schema
             \<lparr>allowed_types = [''MultiPoint'', ''Point'']\<rparr> Geometry_class = Inr f
          \<and> f (PDict [(''type'', PStr ''Point''), (''coordinates'', PList [PNum 1, PNum 2])])
              \<lparr>info_context = None\<rparr> = Inr None)"
  by (simp add: init_success GEOMETRY_TYPES_def validator_point_example
      GeometryTypeConstraint_get_pydantic_core_schema_def with_info_after_validator_function_def
      validate_def)

lemma validator_returns: "from_geo_json v = Inr g \<Longrightarrow> validator v info = Inr g"
  by (simp add: validator_def)

lemma validator_raises:
  "from_geo_json v = Inl e \<Longrightarrow> error_loc info = Inr loc \<Longrightarrow>
     validator v info =
       Inl (ValidationError ''Geometry''
         [\<lparr>err_type = ''value_error'', err_loc = loc, err_input = Raw v,
           ctx_error = Text ''invalid geometry value: '' # exn_str e\<rparr>])"
  by (simp add: validator_def)

lemma validator_returns_or_raises:
  "error_loc info = Inr loc \<Longrightarrow>
     (\<exists>g. from_geo_json v = Inr g \<and> validator v info = Inr g) \<or>
     (\<exists>e. from_geo_json v = Inl e \<and>
        validator v info =
          Inl (ValidationError ''Geometry''
            [\<lparr>err_type = ''value_error'', err_loc = loc, err_input = Raw v,
              ctx_error = Text ''invalid geometry value: '' # exn_str e\<rparr>]))"
  by (cases "from_geo_json v") (simp_all add: validator_def)

text \<open>
  C10, as the code has it. An input that decodes is returned as its Geometry, whatever the
  validation context is. When there is no context, or a false one, or a dictionary without
  \<^verbatim>\<open>loc_prefix\<close>, or a dictionary whose \<^verbatim>\<open>loc_prefix\<close> is a tuple of strings and ints, the
  validator returns the decoded Geometry or raises one ValidationError with a single line
  error of type \<^verbatim>\<open>value_error\<close>, located at the \<^verbatim>\<open>loc_prefix\<close> (the empty tuple when it
  is absent) followed by \<^verbatim>\<open>"value"\<close>, whose message embeds the text of the exception that
  decoding raised.
\<close>

theorem validator_wraps:
  "(from_geo_json v = Inr g \<longrightarrow> validator v info = Inr g)
   \<and> (info_context info = None \<or> (\<exists>c. info_context info = Some c \<and> \<not> truthy_obj c) \<or>
      (\<exists>d. info_context info = Some (ODict d) \<and> map_of d ''loc_prefix'' = None) \<longrightarrow>
        (\<exists>g. from_geo_json v = Inr g \<and> validator v info = Inr g) \<or>
        (\<exists>e. from_geo_json v = Inl e \<and>
           validator v info =
             Inl (ValidationError ''Geometry''
               [\<lparr>err_type = ''value_error'', err_loc = [LocStr ''value''], err_input = Raw v,
                 ctx_error = Text ''invalid geometry value: '' # exn_str e\<rparr>])))
   \<and> (info_context info = Some (ODict d) \<and>
      map_of d ''loc_prefix'' = Some (OTuple (map loc_obj prefix)) \<longrightarrow>
        (\<exists>g. from_geo_json v = Inr g \<and> validator v info = Inr g) \<or>
        (\<exists>e. from_geo_json v = Inl e \<and>
           validator v info =
             Inl (ValidationError ''Geometry''
               [\<lparr>err_type = ''value_error'', err_loc = prefix @ [LocStr ''value''],
                 err_input = Raw v,
                 ctx_error = Text ''invalid geometry value: '' # exn_str e\<rparr>])))"
proof (intro conjI impI)
  assume "from_geo_json v = Inr g"
  then show "validator v info = Inr g" by (rule validator_returns)
next
  assume "info_context info = None \<or> (\<exists>c. info_context info = Some c \<and> \<not> truthy_obj c) \<or>
      (\<exists>d. info_context info = Some (ODict d) \<and> map_of d ''loc_prefix'' = None)"
  then have "error_loc info = Inr [LocStr ''value'']"
    using error_loc_no_context [of info] error_loc_no_prefix [of info] by blast
  then show "(\<exists>g. from_geo_json v = Inr g \<and> validator v info = Inr g) \<or>
        (\<exists>e. from_geo_json v = Inl e \<and>
           validator v info =
             Inl (ValidationError ''Geometry''
               [\<lparr>err_type = ''value_error'', err_loc = [LocStr ''value''], err_input = Raw v,
                 ctx_error = Text ''invalid geometry value: '' # exn_str e\<rparr>]))"
    by (rule validator_returns_or_raises)
next
  assume "info_context info = Some (ODict d) \<and>
      map_of d ''loc_prefix'' = Some (OTuple (map loc_obj prefix))"
  then have "error_loc info = Inr (prefix @ [LocStr ''value''])"
    using error_loc_prefix [of info d prefix] by simp
  then show "(\<exists>g. from_geo_json v = Inr g \<and> validator v info = Inr g) \<or>
        (\<exists>e. from_geo_json v = Inl e \<and>
           validator v info =
             Inl (ValidationError ''Geometry''
               [\<lparr>err_type = ''value_error'', err_loc = prefix @ [LocStr ''value''],
                 err_input = Raw v,
                 ctx_error = Text ''invalid geometry value: '' # exn_str e\<rparr>]))"
    by (rule validator_returns_or_raises)
qed

theorem validator_wraps_witness:
  "validator (PStr ''not a map'')
     \<lparr>info_context = Some (ODict [(''loc_prefix'', OTuple [OStr ''features'', OInt 3])])\<rparr> =
     Inl (ValidationError ''Geometry''
       [\<lparr>err_type = ''value_error'',
         err_loc = [LocStr ''features'', LocInt 3, LocStr ''value''],
         err_input = Raw (PStr ''not a map''),
         ctx_error =
           [Text ''invalid geometry value: '', Text ''value must be a dict; but '',
            Repr (PStr ''not a map''), Text '' has type '', TypeName (PStr ''not a map'')]\<rparr>])
   \<and> validator (PDict [(''type'', PStr ''Point'')]) \<lparr>info_context = None\<rparr> =
     Inl (ValidationError ''Geometry''
       [\<lparr>err_type = ''value_error'', err_loc = [LocStr ''value''],
         err_input = Raw (PDict [(''type'', PStr ''Point'')]),
         ctx_error = [Text ''invalid geometry value: '', Repr (PStr ''coordinates'')]\<rparr>])
   \<and> validator (PDict [(''type'', PStr ''Point''), (''coordinates'', PList [PNum 1, PNum 2])])
       \<lparr>info_context = Some (OStr ''not a dict'')\<rparr> = Inr (Geometry (Point [1, 2]))"
proof -
  let ?i = "\<lparr>info_context = Some (ODict [(''loc_prefix'', OTuple [OStr ''features'', OInt 3])])\<rparr>"
  let ?p = "PDict [(''type'', PStr ''Point''), (''coordinates'', PList [PNum 1, PNum 2])]"
  have 1: "from_geo_json (PStr ''not a map'') =
      Inl (TypeError [Text ''value must be a dict; but '',
            Repr (PStr ''not a map''), Text '' has type '', TypeName (PStr ''not a map'')])"
    by (simp add: from_geo_json_def)
  have 2: "from_geo_json (PDict [(''type'', PStr ''Point'')]) = Inl (KeyError ''coordinates'')"
    by (simp add: from_geo_json_def GEOMETRY_TYPES_def coordinates_of_def)
  have 3: "from_geo_json ?p = Inr (Geometry (Point [1, 2]))"
    by (simp add: from_geo_json_def GEOMETRY_TYPES_def coordinates_of_def position_def nested_def)
  have a: "validator (PStr ''not a map'') ?i =
     Inl (ValidationError ''Geometry''
       [\<lparr>err_type = ''value_error'',
         err_loc = [LocStr ''features'', LocInt 3, LocStr ''value''],
         err_input = Raw (PStr ''not a map''),
         ctx_error =
           [Text ''invalid geometry value: '', Text ''value must be a dict; but '',
            Repr (PStr ''not a map''), Text '' has type '', TypeName (PStr ''not a map'')]\<rparr>])"
    using validator_wraps [of "PStr ''not a map''" "Geometry (Point [])" ?i
        "[(''loc_prefix'', OTuple [OStr ''features'', OInt 3])]" "[LocStr ''features'', LocInt 3]"]
    by (simp add: 1)
  have b: "validator (PDict [(''type'', PStr ''Point'')]) \<lparr>info_context = None\<rparr> =
     Inl (ValidationError ''Geometry''
       [\<lparr>err_type = ''value_error'', err_loc = [LocStr ''value''],
         err_input = Raw (PDict [(''type'', PStr ''Point'')]),
         ctx_error = [Text ''invalid geometry value: '', Repr (PStr ''coordinates'')]\<rparr>])"
    using validator_wraps [of "PDict [(''type'', PStr ''Point'')]" "Geometry (Point [])"
        "\<lparr>info_context = None\<rparr>"]
    by (simp add: 2)
  have c: "validator ?p \<lparr>info_context = Some (OStr ''not a dict'')\<rparr> = Inr (Geometry (Point [1, 2]))"
    using validator_wraps [of ?p "Geometry (Point [1, 2])" "\<lparr>info_context = Some (OStr ''not a dict'')\<rparr>"] 3
    by simp
  show ?thesis using a b c by (intro conjI)
qed

text \<open>
  With a context whose \<^verbatim>\<open>loc_prefix\<close> is a list, the location step of the handler raises
  a TypeError, and that exception leaves the validator unwrapped.
\<close>

theorem validator_raw_exception_escapes:
  "validator (PStr ''not a map'')
     \<lparr>info_context = Some (ODict [(''loc_prefix'', OList [OStr ''features''])])\<rparr> =
     Inl (TypeError [Text ''loc_prefix cannot be concatenated with a tuple''])"
  by (simp add: validator_def from_geo_json_def error_loc_def)

section \<open>Decoding\<close>

lemma from_geo_json_unrecognized:
  "\<not> (\<exists>t. map_of d ''type'' = Some (PStr t) \<and> t \<in> set GEOMETRY_TYPES) \<Longrightarrow>
     \<exists>m. from_geo_json (PDict d) = Inl (ValueError m)"
  by (auto simp: from_geo_json_def Let_def simp del: shape.simps split: option.splits)

lemma from_geo_json_recognized:
  "map_of d ''type'' = Some (PStr t) \<Longrightarrow> t \<in> set GEOMETRY_TYPES \<Longrightarrow>
     from_geo_json (PDict d) =
       (case shape (PDict d) of Inl e \<Rightarrow> Inl e | Inr s \<Rightarrow> Inr (Geometry s))"
  by (simp add: from_geo_json_def Let_def del: shape.simps)

section \<open>Round trip, equality and hashing\<close>

lemma sequence_map_roundtrip:
  "(\<And>x. x \<in> set xs \<Longrightarrow> f (g x) = Inr x) \<Longrightarrow> sequence (map (\<lambda>x. f (g x)) xs) = Inr xs"
  by (induction xs) simp_all

lemma nested_roundtrip:
  "(\<And>x. x \<in> set xs \<Longrightarrow> item (pr x) = Inr x) \<Longrightarrow> nested item (PList (map pr xs)) = Inr xs"
  using sequence_map_roundtrip [of xs item pr] by (simp add: nested_def comp_def)

lemma position_roundtrip: "position (PList (map PNum p)) = Inr p"
  unfolding position_def by (rule nested_roundtrip) simp

lemma positions_roundtrip: "positions (PList (map (\<lambda>p. PList (map PNum p)) c)) = Inr c"
  unfolding positions_def by (rule nested_roundtrip) (rule position_roundtrip)

lemma rings_roundtrip:
  "rings (PList (map (\<lambda>r. PList (map (\<lambda>p. PList (map PNum p)) r)) c)) = Inr c"
  unfolding rings_def by (rule nested_roundtrip) (rule positions_roundtrip)

lemma polygons_roundtrip:
  "polygons (PList (map (\<lambda>g. PList (map (\<lambda>r. PList (map (\<lambda>p. PList (map PNum p)) r)) g)) c)) = Inr c"
  unfolding polygons_def by (rule nested_roundtrip) (rule rings_roundtrip)

lemma shape_mapping: "shape (mapping s) = Inr s"
proof (induction s)
  case (GeometryCollection gs)
  then have "sequence (map (\<lambda>x. shape (mapping x)) gs) = Inr gs"
    by (intro sequence_map_roundtrip) simp
  then show ?case by (simp add: comp_def)
qed (simp_all add: coordinates_of_def position_roundtrip positions_roundtrip rings_roundtrip
      polygons_roundtrip)

lemma mapping_type:
  "\<exists>d. mapping s = PDict d \<and> map_of d ''type'' = Some (PStr (geom_type s))"
  by (cases s) simp_all

lemma geom_type_known: "geom_type s \<in> set GEOMETRY_TYPES"
  by (cases s) (simp_all add: GEOMETRY_TYPES_def)

lemma from_geo_json_to_geo_json: "from_geo_json (to_geo_json g) = Inr g"
proof -
  obtain d where d: "mapping (geom g) = PDict d" "map_of d ''type'' = Some (PStr (geom_type (geom g)))"
    using mapping_type by blast
  have "from_geo_json (PDict d) =
      (case shape (PDict d) of Inl e \<Rightarrow> Inl e | Inr s \<Rightarrow> Inr (Geometry s))"
    using d(2) geom_type_known by (rule from_geo_json_recognized)
  moreover have "shape (PDict d) = Inr (geom g)"
    using shape_mapping [of "geom g"] d(1) by simp
  ultimately show ?thesis by (simp add: to_geo_json_def d(1))
qed

lemma sequence_Inr:
  "sequence (map item xs) = Inr ys \<Longrightarrow> list_all2 (\<lambda>x y. item x = Inr y) xs ys"
  by (induction xs arbitrary: ys) (auto split: sum.splits)

lemma nested_Inr:
  "nested item v = Inr ys \<Longrightarrow> \<exists>xs. v = PList xs \<and> list_all2 (\<lambda>x y. item x = Inr y) xs ys"
  by (cases v) (auto simp: nested_def dest: sequence_Inr)

lemma list_all2_map_inverse:
  "list_all2 (\<lambda>x y. item x = Inr y) xs ys \<Longrightarrow> (\<And>x y. item x = Inr y \<Longrightarrow> pr y = x) \<Longrightarrow>
     map pr ys = xs"
  by (induction rule: list_all2_induct) auto

lemma nested_inverse:
  "nested item v = Inr ys \<Longrightarrow> (\<And>x y. item x = Inr y \<Longrightarrow> pr y = x) \<Longrightarrow> PList (map pr ys) = v"
  using nested_Inr [of item v ys] list_all2_map_inverse [of item _ ys pr] by blast

lemma number_inverse: "number x = Inr y \<Longrightarrow> PNum y = x"
  by (cases x) simp_all

lemma position_inverse: "position v = Inr p \<Longrightarrow> PList (map PNum p) = v"
  unfolding position_def by (erule nested_inverse) (rule number_inverse)

lemma positions_inverse: "positions v = Inr c \<Longrightarrow> PList (map (\<lambda>p. PList (map PNum p)) c) = v"
  unfolding positions_def by (erule nested_inverse) (rule position_inverse)

lemma rings_inverse:
  "rings v = Inr c \<Longrightarrow> PList (map (\<lambda>r. PList (map (\<lambda>p. PList (map PNum p)) r)) c) = v"
  unfolding rings_def by (erule nested_inverse) (rule positions_inverse)

lemma polygons_inverse:
  "polygons v = Inr c \<Longrightarrow>
     PList (map (\<lambda>g. PList (map (\<lambda>r. PList (map (\<lambda>p. PList (map PNum p)) r)) g)) c) = v"
  unfolding polygons_def by (erule nested_inverse) (rule rings_inverse)

lemma coordinates_of_Inr:
  "coordinates_of d parse wrap = Inr s \<Longrightarrow>
     \<exists>c x. map_of d ''coordinates'' = Some c \<and> parse c = Inr x \<and> s = wrap x"
  by (auto simp: coordinates_of_def split: option.splits sum.splits)

lemma shape_unknown_type:
  "map_of d ''type'' = Some (PStr t) \<Longrightarrow> t \<notin> set GEOMETRY_TYPES \<Longrightarrow>
     shape (PDict d) = Inl (ValueError [Text ''Unknown geometry type: '', Repr (PStr t)])"
  by (simp add: GEOMETRY_TYPES_def)

lemma shape_Inr_dict:
  "shape v = Inr s \<Longrightarrow> \<exists>d t. v = PDict d \<and> map_of d ''type'' = Some (PStr t) \<and> t \<in> set GEOMETRY_TYPES"
proof (cases v)
  case (PDict d)
  assume s: "shape v = Inr s"
  then obtain w where w: "map_of d ''type'' = Some w"
    using PDict by (cases "map_of d ''type''") auto
  then obtain t where t: "w = PStr t"
    using s PDict by (cases w) auto
  have "t \<in> set GEOMETRY_TYPES"
    using s PDict w t shape_unknown_type [of d t] by auto
  then show ?thesis using PDict w t by blast
qed simp_all

lemma GEOMETRY_TYPES_cases:
  "t \<in> set GEOMETRY_TYPES \<longleftrightarrow>
     t = ''GeometryCollection'' \<or> t = ''LineString'' \<or> t = ''Point'' \<or> t = ''Polygon'' \<or>
     t = ''MultiLineString'' \<or> t = ''MultiPoint'' \<or> t = ''MultiPolygon''"
  by (simp add: GEOMETRY_TYPES_def)

lemma seven_cases:
  "t = a \<or> t = b \<or> t = c \<or> t = d \<or> t = e \<or> t = f \<or> t = g \<Longrightarrow> t \<noteq> a \<Longrightarrow>
   (t = c \<Longrightarrow> P) \<Longrightarrow> (t = b \<Longrightarrow> P) \<Longrightarrow> (t = d \<Longrightarrow> P) \<Longrightarrow> (t = f \<Longrightarrow> P) \<Longrightarrow> (t = e \<Longrightarrow> P) \<Longrightarrow> (t = g \<Longrightarrow> P) \<Longrightarrow> P"
  by blast

lemma simple_type_cases:
  assumes "t \<in> set GEOMETRY_TYPES" and "t \<noteq> ''GeometryCollection''"
  obtains "t = ''Point''" | "t = ''LineString''" | "t = ''Polygon''" | "t = ''MultiPoint''"
    | "t = ''MultiLineString''" | "t = ''MultiPolygon''"
  using assms(1) [unfolded GEOMETRY_TYPES_cases] assms(2) by (rule seven_cases)

lemma coordinates_of_mapping:
  assumes "coordinates_of d parse wrap = Inr s"
    and "\<And>c x. parse c = Inr x \<Longrightarrow> mapping (wrap x) = PDict [(''type'', PStr t), (''coordinates'', c)]"
    and "\<And>x. geom_type (wrap x) = t"
  shows "t = geom_type s \<and>
    (\<exists>c. map_of d ''coordinates'' = Some c \<and>
         mapping s = PDict [(''type'', PStr t), (''coordinates'', c)])"
proof -
  obtain c x where c: "map_of d ''coordinates'' = Some c" "parse c = Inr x" "s = wrap x"
    using coordinates_of_Inr [OF assms(1)] by blast
  have "mapping s = PDict [(''type'', PStr t), (''coordinates'', c)]"
    using assms(2) [OF c(2)] c(3) by simp
  moreover have "t = geom_type s" using assms(3) [of x] c(3) by simp
  ultimately show ?thesis using c(1) by blast
qed

lemma shape_simple:
  assumes "map_of d ''type'' = Some (PStr t)" and "shape (PDict d) = Inr s"
    and "t \<noteq> ''GeometryCollection''"
  shows "t = geom_type s \<and>
    (\<exists>c. map_of d ''coordinates'' = Some c \<and>
         mapping s = PDict [(''type'', PStr t), (''coordinates'', c)])"
proof -
  have t: "t \<in> set GEOMETRY_TYPES"
    using shape_Inr_dict [OF assms(2)] assms(1) by auto
  from t assms(3) show ?thesis
  proof (cases rule: simple_type_cases)
    case 1
    then have "coordinates_of d position Point = Inr s" using assms(1,2) by simp
    then show ?thesis
      by (rule coordinates_of_mapping) (simp_all add: 1 position_inverse)
  next
    case 2
    then have "coordinates_of d positions LineString = Inr s" using assms(1,2) by simp
    then show ?thesis
      by (rule coordinates_of_mapping) (simp_all add: 2 positions_inverse)
  next
    case 3
    then have "coordinates_of d rings Polygon = Inr s" using assms(1,2) by simp
    then show ?thesis
      by (rule coordinates_of_mapping) (simp_all add: 3 rings_inverse)
  next
    case 4
    then have "coordinates_of d positions MultiPoint = Inr s" using assms(1,2) by simp
    then show ?thesis
      by (rule coordinates_of_mapping) (simp_all add: 4 positions_inverse)
  next
    case 5
    then have "coordinates_of d rings MultiLineString = Inr s" using assms(1,2) by simp
    then show ?thesis
      by (rule coordinates_of_mapping) (simp_all add: 5 rings_inverse)
  next
    case 6
    then have "coordinates_of d polygons MultiPolygon = Inr s" using assms(1,2) by simp
    then show ?thesis
      by (rule coordinates_of_mapping) (simp_all add: 6 polygons_inverse)
  qed
qed

lemma shape_collection:
  assumes "map_of d ''type'' = Some (PStr ''GeometryCollection'')" and "shape (PDict d) = Inr s"
  shows "\<exists>js ss. map_of d ''geometries'' = Some (PList js) \<and> s = GeometryCollection ss \<and>
           list_all2 (\<lambda>j k. shape j = Inr k) js ss"
proof -
  obtain w where w: "map_of d ''geometries'' = Some w"
    using assms by (cases "map_of d ''geometries''") auto
  then obtain js where js: "w = PList js"
    using assms by (cases w) auto
  then obtain ss where ss: "sequence (map shape js) = Inr ss" "s = GeometryCollection ss"
    using assms w by (auto split: sum.splits)
  then show ?thesis using w js sequence_Inr [of shape js ss] by blast
qed

lemma from_geo_json_Inr_shape: "from_geo_json v = Inr g \<longleftrightarrow> shape v = Inr (geom g)"
proof
  assume a: "from_geo_json v = Inr g"
  then obtain d where d: "v = PDict d"
    by (cases v) (simp_all add: from_geo_json_def)
  have "\<exists>t. map_of d ''type'' = Some (PStr t) \<and> t \<in> set GEOMETRY_TYPES"
    using a d from_geo_json_unrecognized [of d] by auto
  then have "from_geo_json v = (case shape v of Inl e \<Rightarrow> Inl e | Inr s \<Rightarrow> Inr (Geometry s))"
    using d from_geo_json_recognized [of d] by auto
  then show "shape v = Inr (geom g)"
    using a by (cases "shape v") auto
next
  assume a: "shape v = Inr (geom g)"
  then obtain d t where d: "v = PDict d" "map_of d ''type'' = Some (PStr t)" "t \<in> set GEOMETRY_TYPES"
    using shape_Inr_dict by blast
  have "from_geo_json v = (case shape v of Inl e \<Rightarrow> Inl e | Inr s \<Rightarrow> Inr (Geometry s))"
    using d from_geo_json_recognized [of d t] by simp
  then show "from_geo_json v = Inr g"
    using a by simp
qed

lemma decoded_children:
  "list_all2 (\<lambda>j k. shape j = Inr k) js ss \<Longrightarrow>
     list_all2 (\<lambda>j k. from_geo_json j = Inr k) js (map Geometry ss)"
  by (induction rule: list_all2_induct) (simp_all add: from_geo_json_Inr_shape)

text \<open>
  C1. Decoding the GeoJSON object that encoding produces from a Geometry gives a Geometry
  equal to it. And when an input decodes, it is a dictionary with a recognized \<^verbatim>\<open>type\<close>,
  the decoded Geometry has that kind, and encoding it gives exactly that \<^verbatim>\<open>type\<close> with the
  \<^verbatim>\<open>coordinates\<close> of the input, value by value and level by level; for a collection, with
  the encodings of the Geometries that the members of the input's \<^verbatim>\<open>geometries\<close> decode
  to, in the same order (so the same holds of each member in turn).
\<close>

theorem geo_json_roundtrip:
  "(\<exists>g'. from_geo_json (to_geo_json g) = Inr g' \<and> Geometry_eq g' (Obj g))
   \<and> (from_geo_json i = Inr h \<longrightarrow>
        (\<exists>d t. i = PDict d \<and> map_of d ''type'' = Some (PStr t) \<and> geom_type (geom h) = t \<and>
           (t \<noteq> ''GeometryCollection'' \<longrightarrow>
              (\<exists>c. map_of d ''coordinates'' = Some c \<and>
                   to_geo_json h = PDict [(''type'', PStr t), (''coordinates'', c)])) \<and>
           (t = ''GeometryCollection'' \<longrightarrow>
              (\<exists>js ks. map_of d ''geometries'' = Some (PList js) \<and>
                   list_all2 (\<lambda>j k. from_geo_json j = Inr k) js ks \<and>
                   to_geo_json h =
                     PDict [(''type'', PStr t), (''geometries'', PList (map to_geo_json ks))]))))"
proof (intro conjI impI)
  show "\<exists>g'. from_geo_json (to_geo_json g) = Inr g' \<and> Geometry_eq g' (Obj g)"
    by (simp add: from_geo_json_to_geo_json Geometry_eq_def)
next
  assume a: "from_geo_json i = Inr h"
  then have s: "shape i = Inr (geom h)"
    by (simp add: from_geo_json_Inr_shape)
  then obtain d t where d: "i = PDict d" "map_of d ''type'' = Some (PStr t)"
    using shape_Inr_dict by blast
  have simple: "t = geom_type (geom h) \<and>
      (\<exists>c. map_of d ''coordinates'' = Some c \<and>
           mapping (geom h) = PDict [(''type'', PStr t), (''coordinates'', c)])"
    if "t \<noteq> ''GeometryCollection''"
    using d(2) s [unfolded d(1)] that by (rule shape_simple)
  have coll: "\<exists>js ss. map_of d ''geometries'' = Some (PList js) \<and> geom h = GeometryCollection ss \<and>
           list_all2 (\<lambda>j k. shape j = Inr k) js ss"
    if "t = ''GeometryCollection''"
    using d(2) [unfolded that] s [unfolded d(1)] by (rule shape_collection)
  have kind: "geom_type (geom h) = t"
  proof (cases "t = ''GeometryCollection''")
    case True
    then show ?thesis using coll by auto
  next
    case False
    then show ?thesis using simple by simp
  qed
  have c1: "t \<noteq> ''GeometryCollection'' \<longrightarrow>
      (\<exists>c. map_of d ''coordinates'' = Some c \<and>
           to_geo_json h = PDict [(''type'', PStr t), (''coordinates'', c)])"
    using simple by (simp add: to_geo_json_def)
  have c2: "t = ''GeometryCollection'' \<longrightarrow>
      (\<exists>js ks. map_of d ''geometries'' = Some (PList js) \<and>
           list_all2 (\<lambda>j k. from_geo_json j = Inr k) js ks \<and>
           to_geo_json h =
             PDict [(''type'', PStr t), (''geometries'', PList (map to_geo_json ks))])"
  proof
    assume t: "t = ''GeometryCollection''"
    then obtain js ss where js: "map_of d ''geometries'' = Some (PList js)"
      "geom h = GeometryCollection ss" "list_all2 (\<lambda>j k. shape j = Inr k) js ss"
      using coll by blast
    have "to_geo_json h =
        PDict [(''type'', PStr t), (''geometries'', PList (map to_geo_json (map Geometry ss)))]"
      by (simp add: to_geo_json_def js(2) t comp_def)
    then show "\<exists>js ks. map_of d ''geometries'' = Some (PList js) \<and>
           list_all2 (\<lambda>j k. from_geo_json j = Inr k) js ks \<and>
           to_geo_json h =
             PDict [(''type'', PStr t), (''geometries'', PList (map to_geo_json ks))]"
      using js(1) decoded_children [OF js(3)] by blast
  qed
  show "\<exists>d t. i = PDict d \<and> map_of d ''type'' = Some (PStr t) \<and> geom_type (geom h) = t \<and>
           (t \<noteq> ''GeometryCollection'' \<longrightarrow>
              (\<exists>c. map_of d ''coordinates'' = Some c \<and>
                   to_geo_json h = PDict [(''type'', PStr t), (''coordinates'', c)])) \<and>
           (t = ''GeometryCollection'' \<longrightarrow>
              (\<exists>js ks. map_of d ''geometries'' = Some (PList js) \<and>
                   list_all2 (\<lambda>j k. from_geo_json j = Inr k) js ks \<and>
                   to_geo_json h =
                     PDict [(''type'', PStr t), (''geometries'', PList (map to_geo_json ks))]))"
    using d kind c1 c2 by blast
qed

theorem geo_json_roundtrip_witness:
  "(\<exists>g'. from_geo_json (to_geo_json (Geometry (LineString [[0, 0], [1, 1]]))) = Inr g' \<and>
         Geometry_eq g' (Obj (Geometry (LineString [[0, 0], [1, 1]]))))
   \<and> from_geo_json
        (PDict [(''bbox'', PList []), (''coordinates'', PList [PNum 1, PNum 2]),
                (''type'', PStr ''Point'')]) = Inr (Geometry (Point [1, 2]))
   \<and> to_geo_json (Geometry (Point [1, 2])) =
        PDict [(''type'', PStr ''Point''), (''coordinates'', PList [PNum 1, PNum 2])]"
proof -
  let ?d = "[(''bbox'', PList []), (''coordinates'', PList [PNum 1, PNum 2]),
             (''type'', PStr ''Point'')]"
  let ?h = "Geometry (Point [1, 2])"
  note r = geo_json_roundtrip [of "Geometry (LineString [[0, 0], [1, 1]])" "PDict ?d" ?h]
  have dec: "from_geo_json (PDict ?d) = Inr ?h"
    by (simp add: from_geo_json_def GEOMETRY_TYPES_def coordinates_of_def position_def nested_def)
  have 1: "\<exists>g'. from_geo_json (to_geo_json (Geometry (LineString [[0, 0], [1, 1]]))) = Inr g' \<and>
         Geometry_eq g' (Obj (Geometry (LineString [[0, 0], [1, 1]])))"
    using r by (rule conjunct1)
  obtain d t where dt: "PDict ?d = PDict d" "map_of d ''type'' = Some (PStr t)"
      "t \<noteq> ''GeometryCollection'' \<longrightarrow>
         (\<exists>c. map_of d ''coordinates'' = Some c \<and>
              to_geo_json ?h = PDict [(''type'', PStr t), (''coordinates'', c)])"
    using r [THEN conjunct2, THEN mp, OF dec] by blast
  have d: "d = ?d" using dt(1) by simp
  have t: "t = ''Point''" using dt(2) unfolding d by simp
  have 3: "to_geo_json ?h = PDict [(''type'', PStr ''Point''), (''coordinates'', PList [PNum 1, PNum 2])]"
    using dt(3) unfolding d t by simp
  show ?thesis using 1 dec 3 by (intro conjI)
qed

lemma mapping_inj: "mapping s = mapping s' \<Longrightarrow> s = s'"
proof -
  assume "mapping s = mapping s'"
  then have "shape (mapping s) = shape (mapping s')" by simp
  then show "s = s'" by (simp add: shape_mapping)
qed

text \<open>
  C9. \<^verbatim>\<open>Geometry.__eq__\<close> is false for an object that is not a Geometry and is otherwise
  the equality of the two wrapped shapes, and \<^verbatim>\<open>Geometry.__hash__\<close> is the hash of the
  wrapped shape: whenever the hash of shapes agrees on equal shapes, the hash of Geometry
  values agrees on equal Geometry values. With the exact structural equality of shapes, two
  Geometry values are equal exactly when their kinds and their GeoJSON objects (kind and all
  coordinate data, compared exactly) are the same, equal Geometry values have the same
  hash, and a Geometry decoded from a Point is never equal to one decoded from a
  MultiPoint.
\<close>

theorem equality_and_hash:
  "(Geometry_eq g (Obj h) \<longleftrightarrow>
      geom_type (geom g) = geom_type (geom h) \<and> to_geo_json g = to_geo_json h)
   \<and> \<not> Geometry_eq g (Raw v)
   \<and> (Geometry_eq g x \<longleftrightarrow> Geometry_eq_with (=) g x)
   \<and> (Geometry_eq_with eq g (Obj h) \<longleftrightarrow> eq (geom g) (geom h))
   \<and> ((\<forall>s s'. eq s s' \<longrightarrow> hash s = hash s') \<and> Geometry_eq_with eq g (Obj h) \<longrightarrow>
        Geometry_hash hash g = Geometry_hash hash h)
   \<and> (Geometry_eq g (Obj h) \<longrightarrow> Geometry_hash hash g = Geometry_hash hash h)
   \<and> (from_geo_json (PDict d) = Inr g \<and> map_of d ''type'' = Some (PStr ''Point'') \<and>
      from_geo_json (PDict d') = Inr h \<and> map_of d' ''type'' = Some (PStr ''MultiPoint'') \<longrightarrow>
        \<not> Geometry_eq g (Obj h) \<and> \<not> Geometry_eq h (Obj g))"
proof (intro conjI impI)
  show "Geometry_eq g (Obj h) \<longleftrightarrow>
      geom_type (geom g) = geom_type (geom h) \<and> to_geo_json g = to_geo_json h"
    using mapping_inj [of "geom g" "geom h"]
    by (auto simp: Geometry_eq_def to_geo_json_def)
next
  show "\<not> Geometry_eq g (Raw v)" by (simp add: Geometry_eq_def)
next
  show "Geometry_eq g x \<longleftrightarrow> Geometry_eq_with (=) g x"
    by (simp add: Geometry_eq_def Geometry_eq_with_def)
next
  show "Geometry_eq_with eq g (Obj h) \<longleftrightarrow> eq (geom g) (geom h)"
    by (simp add: Geometry_eq_with_def)
next
  assume "(\<forall>s s'. eq s s' \<longrightarrow> hash s = hash s') \<and> Geometry_eq_with eq g (Obj h)"
  then have "hash (geom g) = hash (geom h)"
    by (simp add: Geometry_eq_with_def)
  then show "Geometry_hash hash g = Geometry_hash hash h"
    by (simp add: Geometry_hash_def)
next
  assume "Geometry_eq g (Obj h)"
  then show "Geometry_hash hash g = Geometry_hash hash h"
    by (simp add: Geometry_eq_def Geometry_hash_def)
next
  assume a: "from_geo_json (PDict d) = Inr g \<and> map_of d ''type'' = Some (PStr ''Point'') \<and>
      from_geo_json (PDict d') = Inr h \<and> map_of d' ''type'' = Some (PStr ''MultiPoint'')"
  have dg: "from_geo_json (PDict d) = Inr g" and tg: "map_of d ''type'' = Some (PStr ''Point'')"
    and dh: "from_geo_json (PDict d') = Inr h"
    and th: "map_of d' ''type'' = Some (PStr ''MultiPoint'')"
    using a by (simp_all only:)
  have g: "shape (PDict d) = Inr (geom g)"
    using dg by (simp only: from_geo_json_Inr_shape)
  have h: "shape (PDict d') = Inr (geom h)"
    using dh by (simp only: from_geo_json_Inr_shape)
  have kg: "''Point'' = geom_type (geom g)"
    using shape_simple [OF tg g] by simp
  have kh: "''MultiPoint'' = geom_type (geom h)"
    using shape_simple [OF th h] by simp
  have "geom_type (geom g) \<noteq> geom_type (geom h)"
    unfolding kg [symmetric] kh [symmetric] by simp
  then have ne: "geom g \<noteq> geom h" by (rule contrapos_nn) simp
  show "\<not> Geometry_eq g (Obj h)" using ne by (simp add: Geometry_eq_def)
  show "\<not> Geometry_eq h (Obj g)" using ne by (simp add: Geometry_eq_def)
qed

theorem equality_and_hash_witness:
  "Geometry_eq (Geometry (Point [1, 2])) (Obj (Geometry (Point [1, 2])))
   \<and> \<not> Geometry_eq (Geometry (Point [1, 2])) (Obj (Geometry (Point [1, 3])))
   \<and> from_geo_json (PDict [(''type'', PStr ''Point''), (''coordinates'', PList [PNum 1, PNum 2])]) =
       Inr (Geometry (Point [1, 2]))
   \<and> from_geo_json (PDict [(''coordinates'', PList [PNum 1, PNum 2]), (''type'', PStr ''Point'')]) =
       Inr (Geometry (Point [1, 2]))
   \<and> from_geo_json (PDict [(''type'', PStr ''MultiPoint''),
                           (''coordinates'', PList [PList [PNum 1, PNum 2]])]) =
       Inr (Geometry (MultiPoint [[1, 2]]))
   \<and> \<not> Geometry_eq (Geometry (Point [1, 2])) (Obj (Geometry (MultiPoint [[1, 2]])))
   \<and> Geometry_eq_with (\<lambda>s s'. geom_type s = geom_type s') (Geometry (Point [1, 2]))
        (Obj (Geometry (Point [3, 4])))
   \<and> Geometry_hash (\<lambda>s. int (length (geom_type s))) (Geometry (Point [1, 2])) =
       Geometry_hash (\<lambda>s. int (length (geom_type s))) (Geometry (Point [3, 4]))
   \<and> Geometry_hash (\<lambda>s. int (length (geom_type s))) (Geometry (Point [1, 2])) = 5"
proof -
  let ?p = "Geometry (Point [1, 2])" and ?q = "Geometry (Point [1, 3])"
  let ?r = "Geometry (Point [3, 4])"
  let ?m = "Geometry (MultiPoint [[1, 2]])"
  let ?dp = "[(''type'', PStr ''Point''), (''coordinates'', PList [PNum 1, PNum 2])]"
  let ?dp' = "[(''coordinates'', PList [PNum 1, PNum 2]), (''type'', PStr ''Point'')]"
  let ?dm = "[(''type'', PStr ''MultiPoint''), (''coordinates'', PList [PList [PNum 1, PNum 2]])]"
  let ?eq = "\<lambda>s s'. geom_type s = geom_type s'"
  let ?hash = "\<lambda>s. int (length (geom_type s))"
  have 1: "Geometry_eq ?p (Obj ?p)"
    using equality_and_hash [where g = ?p and h = ?p] by simp
  have 2: "\<not> Geometry_eq ?p (Obj ?q)"
    using equality_and_hash [where g = ?p and h = ?q] by (simp add: to_geo_json_def)
  have 3: "from_geo_json (PDict ?dp) = Inr ?p"
    by (simp add: from_geo_json_def GEOMETRY_TYPES_def coordinates_of_def position_def nested_def)
  have dec2: "from_geo_json (PDict ?dp') = Inr ?p"
    by (simp add: from_geo_json_def GEOMETRY_TYPES_def coordinates_of_def position_def nested_def)
  have 4: "from_geo_json (PDict ?dm) = Inr ?m"
    by (simp add: from_geo_json_def GEOMETRY_TYPES_def coordinates_of_def positions_def
        position_def nested_def)
  have 5: "\<not> Geometry_eq ?p (Obj ?m)"
    using equality_and_hash [where g = ?p and h = ?m and d = ?dp and d' = ?dm] 3 4 by simp
  have 6: "Geometry_eq_with ?eq ?p (Obj ?r)"
    using equality_and_hash [where g = ?p and h = ?r and eq = ?eq] by simp
  have 7: "Geometry_hash ?hash ?p = Geometry_hash ?hash ?r"
    using equality_and_hash [where g = ?p and h = ?r and eq = ?eq and hash = ?hash] 6
    by simp
  have 8: "Geometry_hash ?hash ?p = 5"
    by (simp add: Geometry_hash_def)
  show ?thesis using 1 2 3 dec2 4 5 6 7 8 by (intro conjI)
qed

section \<open>The decoding contract\<close>

lemma sequence_success:
  "(\<exists>ys. sequence (map f xs) = Inr ys) \<longleftrightarrow> list_all (\<lambda>x. \<exists>y. f x = Inr y) xs"
  by (induction xs) (auto split: sum.splits)

lemma nested_success:
  assumes "\<And>x. (\<exists>y. item x = Inr y) \<longleftrightarrow> arrays_of_numbers n x"
  shows "(\<exists>ys. nested item v = Inr ys) \<longleftrightarrow> arrays_of_numbers (Suc n) v"
proof (cases v)
  case (PList xs)
  have "(\<exists>ys. sequence (map item xs) = Inr ys) \<longleftrightarrow> list_all (arrays_of_numbers n) xs"
    unfolding sequence_success using assms by simp
  then show ?thesis using PList by (simp add: nested_def)
qed (simp_all add: nested_def)

lemma number_success: "(\<exists>y. number v = Inr y) \<longleftrightarrow> arrays_of_numbers 0 v"
  by (cases v) simp_all

lemma position_success: "(\<exists>y. position v = Inr y) \<longleftrightarrow> arrays_of_numbers 1 v"
  unfolding position_def One_nat_def by (rule nested_success) (rule number_success)

lemma positions_success: "(\<exists>y. positions v = Inr y) \<longleftrightarrow> arrays_of_numbers 2 v"
  unfolding positions_def numeral_2_eq_2
  by (rule nested_success) (rule position_success [unfolded One_nat_def])

lemma rings_success: "(\<exists>y. rings v = Inr y) \<longleftrightarrow> arrays_of_numbers 3 v"
  unfolding rings_def numeral_3_eq_3
  by (rule nested_success) (rule positions_success [unfolded numeral_2_eq_2])

lemma polygons_success: "(\<exists>y. polygons v = Inr y) \<longleftrightarrow> arrays_of_numbers 4 v"
proof -
  have 4: "(4::nat) = Suc 3" by simp
  show ?thesis
    unfolding polygons_def 4 by (rule nested_success) (rule rings_success)
qed

lemma coordinates_of_success:
  "(\<exists>s. coordinates_of d parse wrap = Inr s) \<longleftrightarrow>
     (\<exists>c. map_of d ''coordinates'' = Some c \<and> (\<exists>x. parse c = Inr x))"
  by (auto simp: coordinates_of_def split: option.splits sum.splits)

lemma shape_simple_success:
  assumes "map_of d ''type'' = Some (PStr t)" and "t \<in> set GEOMETRY_TYPES"
    and "t \<noteq> ''GeometryCollection''"
  shows "(\<exists>s. shape (PDict d) = Inr s) \<longleftrightarrow>
    (\<exists>c. map_of d ''coordinates'' = Some c \<and> arrays_of_numbers (nesting_depth t) c)"
  using assms(2,3)
proof (cases rule: simple_type_cases)
  case 1
  then have "shape (PDict d) = coordinates_of d position Point" using assms(1) by simp
  then show ?thesis
    by (simp add: coordinates_of_success position_success nesting_depth_def 1)
next
  case 2
  then have "shape (PDict d) = coordinates_of d positions LineString" using assms(1) by simp
  then show ?thesis
    by (simp add: coordinates_of_success positions_success nesting_depth_def 2)
next
  case 3
  then have "shape (PDict d) = coordinates_of d rings Polygon" using assms(1) by simp
  then show ?thesis
    by (simp add: coordinates_of_success rings_success nesting_depth_def 3)
next
  case 4
  then have "shape (PDict d) = coordinates_of d positions MultiPoint" using assms(1) by simp
  then show ?thesis
    by (simp add: coordinates_of_success positions_success nesting_depth_def 4)
next
  case 5
  then have "shape (PDict d) = coordinates_of d rings MultiLineString" using assms(1) by simp
  then show ?thesis
    by (simp add: coordinates_of_success rings_success nesting_depth_def 5)
next
  case 6
  then have "shape (PDict d) = coordinates_of d polygons MultiPolygon" using assms(1) by simp
  then show ?thesis
    by (simp add: coordinates_of_success polygons_success nesting_depth_def 6)
qed

lemma from_geo_json_success: "(\<exists>g. from_geo_json v = Inr g) \<longleftrightarrow> (\<exists>s. shape v = Inr s)"
proof
  assume "\<exists>g. from_geo_json v = Inr g"
  then show "\<exists>s. shape v = Inr s" using from_geo_json_Inr_shape by blast
next
  assume "\<exists>s. shape v = Inr s"
  then obtain s where "shape v = Inr (geom (Geometry s))" by auto
  then have "from_geo_json v = Inr (Geometry s)" by (simp only: from_geo_json_Inr_shape)
  then show "\<exists>g. from_geo_json v = Inr g" by blast
qed

lemma shape_collection_success:
  assumes "map_of d ''type'' = Some (PStr ''GeometryCollection'')"
  shows "(\<exists>s. shape (PDict d) = Inr s) \<longleftrightarrow>
    (\<exists>js. map_of d ''geometries'' = Some (PList js) \<and>
          list_all (\<lambda>j. \<exists>k. from_geo_json j = Inr k) js)"
proof (cases "map_of d ''geometries''")
  case None
  then show ?thesis using assms by simp
next
  case (Some w)
  show ?thesis
  proof (cases w)
    case (PList js)
    have "shape (PDict d) =
        (case sequence (map shape js) of Inl e \<Rightarrow> Inl e | Inr ss \<Rightarrow> Inr (GeometryCollection ss))"
      using assms Some PList by simp
    then have "(\<exists>s. shape (PDict d) = Inr s) \<longleftrightarrow> (\<exists>ss. sequence (map shape js) = Inr ss)"
      by (cases "sequence (map shape js)") simp_all
    then show ?thesis
      using Some PList by (simp add: sequence_success from_geo_json_success)
  qed (use assms Some in simp_all)
qed


text \<open>
  C5. \<^verbatim>\<open>Geometry.from_geo_json\<close> raises a TypeError when the input is not a dictionary;
  it raises a ValueError when the input is a dictionary whose \<^verbatim>\<open>type\<close> is missing or is
  not one of the seven kind names. For a recognized \<^verbatim>\<open>type\<close> it fails with the failure of
  the parse of the kind-specific fields and otherwise returns the Geometry that wraps the
  parsed shape: it fails when \<^verbatim>\<open>coordinates\<close> (or \<^verbatim>\<open>geometries\<close>, for a collection) is
  missing; for the six kinds with coordinates it succeeds exactly when \<^verbatim>\<open>coordinates\<close> is
  present and is arrays of numbers nested to the depth of the kind, and fails otherwise; for
  a collection it succeeds exactly when \<^verbatim>\<open>geometries\<close> is a sequence whose members all
  decode, and fails otherwise.
\<close>

theorem decode_contract:
  "((\<forall>d. v \<noteq> PDict d) \<longrightarrow> (\<exists>m. from_geo_json v = Inl (TypeError m)))
   \<and> (v = PDict d \<and> \<not> (\<exists>t. map_of d ''type'' = Some (PStr t) \<and> t \<in> set GEOMETRY_TYPES) \<longrightarrow>
        (\<exists>m. from_geo_json v = Inl (ValueError m)))
   \<and> (v = PDict d \<and> map_of d ''type'' = Some (PStr t) \<and> t \<in> set GEOMETRY_TYPES \<longrightarrow>
        (\<forall>e. shape v = Inl e \<longrightarrow> from_geo_json v = Inl e) \<and>
        (\<forall>s. shape v = Inr s \<longrightarrow> from_geo_json v = Inr (Geometry s)) \<and>
        (t \<noteq> ''GeometryCollection'' \<and> map_of d ''coordinates'' = None \<longrightarrow>
           from_geo_json v = Inl (KeyError ''coordinates'')) \<and>
        (t = ''GeometryCollection'' \<and> map_of d ''geometries'' = None \<longrightarrow>
           from_geo_json v = Inl (KeyError ''geometries'')) \<and>
        (t \<noteq> ''GeometryCollection'' \<longrightarrow>
           ((\<exists>g. from_geo_json v = Inr g) \<longleftrightarrow>
            (\<exists>c. map_of d ''coordinates'' = Some c \<and> arrays_of_numbers (nesting_depth t) c))) \<and>
        (t \<noteq> ''GeometryCollection'' \<and>
         \<not> (\<exists>c. map_of d ''coordinates'' = Some c \<and> arrays_of_numbers (nesting_depth t) c) \<longrightarrow>
           (\<exists>e. from_geo_json v = Inl e)) \<and>
        (t = ''GeometryCollection'' \<longrightarrow>
           ((\<exists>g. from_geo_json v = Inr g) \<longleftrightarrow>
            (\<exists>js. map_of d ''geometries'' = Some (PList js) \<and>
                  list_all (\<lambda>j. \<exists>k. from_geo_json j = Inr k) js))) \<and>
        (t = ''GeometryCollection'' \<and>
         \<not> (\<exists>js. map_of d ''geometries'' = Some (PList js) \<and>
                  list_all (\<lambda>j. \<exists>k. from_geo_json j = Inr k) js) \<longrightarrow>
           (\<exists>e. from_geo_json v = Inl e)))"
proof (intro conjI impI)
  assume "\<forall>d. v \<noteq> PDict d"
  then show "\<exists>m. from_geo_json v = Inl (TypeError m)"
    by (cases v) (simp_all add: from_geo_json_def)
next
  assume "v = PDict d \<and> \<not> (\<exists>t. map_of d ''type'' = Some (PStr t) \<and> t \<in> set GEOMETRY_TYPES)"
  then show "\<exists>m. from_geo_json v = Inl (ValueError m)"
    using from_geo_json_unrecognized [of d] by blast
next
  assume h: "v = PDict d \<and> map_of d ''type'' = Some (PStr t) \<and> t \<in> set GEOMETRY_TYPES"
  then have v: "v = PDict d" and ty: "map_of d ''type'' = Some (PStr t)"
    and known: "t \<in> set GEOMETRY_TYPES"
    by (simp_all only:)
  have eq: "from_geo_json v = (case shape v of Inl e \<Rightarrow> Inl e | Inr s \<Rightarrow> Inr (Geometry s))"
    unfolding v using ty known by (rule from_geo_json_recognized)
  have fails: "\<exists>e. from_geo_json v = Inl e" if "\<not> (\<exists>g. from_geo_json v = Inr g)"
    using that by (cases "from_geo_json v") simp_all
  show "\<forall>e. shape v = Inl e \<longrightarrow> from_geo_json v = Inl e"
    by (simp add: eq)
  show "\<forall>s. shape v = Inr s \<longrightarrow> from_geo_json v = Inr (Geometry s)"
    by (simp add: eq)
  have simple: "(\<exists>g. from_geo_json v = Inr g) \<longleftrightarrow>
      (\<exists>c. map_of d ''coordinates'' = Some c \<and> arrays_of_numbers (nesting_depth t) c)"
    if "t \<noteq> ''GeometryCollection''"
    using from_geo_json_success [of "PDict d"] shape_simple_success [OF ty known that]
    unfolding v by (rule trans)
  have coll: "(\<exists>g. from_geo_json v = Inr g) \<longleftrightarrow>
      (\<exists>js. map_of d ''geometries'' = Some (PList js) \<and>
            list_all (\<lambda>j. \<exists>k. from_geo_json j = Inr k) js)"
    if "t = ''GeometryCollection''"
    using from_geo_json_success [of "PDict d"] shape_collection_success [OF ty [unfolded that]]
    unfolding v by (rule trans)
  {
    assume a: "t \<noteq> ''GeometryCollection'' \<and> map_of d ''coordinates'' = None"
    have t: "t \<noteq> ''GeometryCollection''" using a by (rule conjunct1)
    have c: "map_of d ''coordinates'' = None" using a by (rule conjunct2)
    from known t have "shape (PDict d) = Inl (KeyError ''coordinates'')"
      by (cases rule: simple_type_cases) (simp_all add: ty c coordinates_of_def)
    then have sh: "shape v = Inl (KeyError ''coordinates'')" unfolding v .
    show "from_geo_json v = Inl (KeyError ''coordinates'')"
      unfolding eq sh by simp
  }
  {
    assume a: "t = ''GeometryCollection'' \<and> map_of d ''geometries'' = None"
    then have "shape (PDict d) = Inl (KeyError ''geometries'')"
      using ty by simp
    then have sh: "shape v = Inl (KeyError ''geometries'')" unfolding v .
    show "from_geo_json v = Inl (KeyError ''geometries'')"
      unfolding eq sh by simp
  }
  {
    assume "t \<noteq> ''GeometryCollection''"
    then show "(\<exists>g. from_geo_json v = Inr g) \<longleftrightarrow>
      (\<exists>c. map_of d ''coordinates'' = Some c \<and> arrays_of_numbers (nesting_depth t) c)"
      by (rule simple)
  }
  {
    assume "t \<noteq> ''GeometryCollection'' \<and>
         \<not> (\<exists>c. map_of d ''coordinates'' = Some c \<and> arrays_of_numbers (nesting_depth t) c)"
    then have "\<not> (\<exists>g. from_geo_json v = Inr g)" using simple by blast
    then show "\<exists>e. from_geo_json v = Inl e" by (rule fails)
  }
  {
    assume "t = ''GeometryCollection''"
    then show "(\<exists>g. from_geo_json v = Inr g) \<longleftrightarrow>
      (\<exists>js. map_of d ''geometries'' = Some (PList js) \<and>
            list_all (\<lambda>j. \<exists>k. from_geo_json j = Inr k) js)"
      by (rule coll)
  }
  {
    assume "t = ''GeometryCollection'' \<and>
         \<not> (\<exists>js. map_of d ''geometries'' = Some (PList js) \<and>
                  list_all (\<lambda>j. \<exists>k. from_geo_json j = Inr k) js)"
    then have "\<not> (\<exists>g. from_geo_json v = Inr g)" using coll by blast
    then show "\<exists>e. from_geo_json v = Inl e" by (rule fails)
  }
qed

theorem decode_contract_witness:
  "(\<exists>m. from_geo_json (PStr ''not a map'') = Inl (TypeError m))
   \<and> (\<exists>m. from_geo_json (PDict [(''type'', PStr ''Triangle''), (''coordinates'', PList [])]) = Inl (ValueError m))
   \<and> (\<exists>m. from_geo_json (PDict [(''coordinates'', PList [PNum 1, PNum 2])]) = Inl (ValueError m))
   \<and> from_geo_json (PDict [(''type'', PStr ''Point'')]) = Inl (KeyError ''coordinates'')
   \<and> from_geo_json (PDict [(''type'', PStr ''Point''), (''coordinates'', PList [PNum 1, PNum 2])]) =
       Inr (Geometry (Point [1, 2]))
   \<and> (\<exists>e. from_geo_json (PDict [(''type'', PStr ''Point''), (''coordinates'', PStr ''abc'')]) = Inl e)
   \<and> (\<exists>e. from_geo_json
            (PDict [(''type'', PStr ''LineString''), (''coordinates'', PList [PNum 1, PNum 2])]) = Inl e)
   \<and> (\<exists>e. from_geo_json
            (PDict [(''type'', PStr ''Polygon''),
                    (''coordinates'', PList [PList [PList [PNum 0, PNum 0], PList [PNum 1, PStr ''x'']]])])
          = Inl e)
   \<and> from_geo_json (PDict [(''type'', PStr ''GeometryCollection'')]) = Inl (KeyError ''geometries'')
   \<and> (\<exists>e. from_geo_json
            (PDict [(''type'', PStr ''GeometryCollection''),
                    (''geometries'', PList [PDict [(''type'', PStr ''Point'')]])]) = Inl e)
   \<and> (\<exists>g. from_geo_json
            (PDict [(''type'', PStr ''GeometryCollection''),
                    (''geometries'',
                     PList [PDict [(''type'', PStr ''Point''),
                                   (''coordinates'', PList [PNum 1, PNum 2])]])]) = Inr g)"
proof -
  have 1: "\<exists>m. from_geo_json (PStr ''not a map'') = Inl (TypeError m)"
    using decode_contract [of "PStr ''not a map''"] by simp
  have 2: "\<exists>m. from_geo_json (PDict [(''type'', PStr ''Triangle''), (''coordinates'', PList [])]) = Inl (ValueError m)"
    using decode_contract [of "PDict [(''type'', PStr ''Triangle''), (''coordinates'', PList [])]"
        "[(''type'', PStr ''Triangle''), (''coordinates'', PList [])]"]
    by (simp add: GEOMETRY_TYPES_def)
  have 3: "\<exists>m. from_geo_json (PDict [(''coordinates'', PList [PNum 1, PNum 2])]) = Inl (ValueError m)"
    using decode_contract [of "PDict [(''coordinates'', PList [PNum 1, PNum 2])]"
        "[(''coordinates'', PList [PNum 1, PNum 2])]"]
    by simp
  have 4: "from_geo_json (PDict [(''type'', PStr ''Point'')]) = Inl (KeyError ''coordinates'')"
    using decode_contract [of "PDict [(''type'', PStr ''Point'')]" "[(''type'', PStr ''Point'')]"
        "''Point''"]
    by (simp add: GEOMETRY_TYPES_def)
  have 5: "from_geo_json (PDict [(''type'', PStr ''Point''), (''coordinates'', PList [PNum 1, PNum 2])]) =
       Inr (Geometry (Point [1, 2]))"
    using decode_contract [of "PDict [(''type'', PStr ''Point''), (''coordinates'', PList [PNum 1, PNum 2])]"
        "[(''type'', PStr ''Point''), (''coordinates'', PList [PNum 1, PNum 2])]" "''Point''"]
    by (simp add: GEOMETRY_TYPES_def coordinates_of_def position_def nested_def)
  have 6: "\<exists>e. from_geo_json (PDict [(''type'', PStr ''Point''), (''coordinates'', PStr ''abc'')]) = Inl e"
    using decode_contract [of "PDict [(''type'', PStr ''Point''), (''coordinates'', PStr ''abc'')]"
        "[(''type'', PStr ''Point''), (''coordinates'', PStr ''abc'')]" "''Point''"]
    by (simp add: GEOMETRY_TYPES_def nesting_depth_def)
  have 7: "\<exists>e. from_geo_json
            (PDict [(''type'', PStr ''LineString''), (''coordinates'', PList [PNum 1, PNum 2])]) = Inl e"
    using decode_contract [of "PDict [(''type'', PStr ''LineString''), (''coordinates'', PList [PNum 1, PNum 2])]"
        "[(''type'', PStr ''LineString''), (''coordinates'', PList [PNum 1, PNum 2])]" "''LineString''"]
    by (simp add: GEOMETRY_TYPES_def nesting_depth_def numeral_2_eq_2)
  have 8: "\<exists>e. from_geo_json
            (PDict [(''type'', PStr ''Polygon''),
                    (''coordinates'', PList [PList [PList [PNum 0, PNum 0], PList [PNum 1, PStr ''x'']]])])
          = Inl e"
    using decode_contract [of
        "PDict [(''type'', PStr ''Polygon''),
                (''coordinates'', PList [PList [PList [PNum 0, PNum 0], PList [PNum 1, PStr ''x'']]])]"
        "[(''type'', PStr ''Polygon''),
          (''coordinates'', PList [PList [PList [PNum 0, PNum 0], PList [PNum 1, PStr ''x'']]])]"
        "''Polygon''"]
    by (simp add: GEOMETRY_TYPES_def nesting_depth_def numeral_3_eq_3)
  have 9: "from_geo_json (PDict [(''type'', PStr ''GeometryCollection'')]) = Inl (KeyError ''geometries'')"
    using decode_contract [of "PDict [(''type'', PStr ''GeometryCollection'')]"
        "[(''type'', PStr ''GeometryCollection'')]" "''GeometryCollection''"]
    by (simp add: GEOMETRY_TYPES_def)
  have 10: "\<exists>e. from_geo_json
            (PDict [(''type'', PStr ''GeometryCollection''),
                    (''geometries'', PList [PDict [(''type'', PStr ''Point'')]])]) = Inl e"
    using decode_contract [of
        "PDict [(''type'', PStr ''GeometryCollection''),
                (''geometries'', PList [PDict [(''type'', PStr ''Point'')]])]"
        "[(''type'', PStr ''GeometryCollection''),
          (''geometries'', PList [PDict [(''type'', PStr ''Point'')]])]"
        "''GeometryCollection''"]
    by (simp add: GEOMETRY_TYPES_def 4)
  have 11: "\<exists>g. from_geo_json
            (PDict [(''type'', PStr ''GeometryCollection''),
                    (''geometries'',
                     PList [PDict [(''type'', PStr ''Point''),
                                   (''coordinates'', PList [PNum 1, PNum 2])]])]) = Inr g"
    using decode_contract [of
        "PDict [(''type'', PStr ''GeometryCollection''),
                (''geometries'',
                 PList [PDict [(''type'', PStr ''Point''), (''coordinates'', PList [PNum 1, PNum 2])]])]"
        "[(''type'', PStr ''GeometryCollection''),
          (''geometries'',
           PList [PDict [(''type'', PStr ''Point''), (''coordinates'', PList [PNum 1, PNum 2])]])]"
        "''GeometryCollection''"]
    by (simp add: GEOMETRY_TYPES_def 5)
  show ?thesis using 1 2 3 4 5 6 7 8 9 10 11 by (intro conjI)
qed

end
